theory Spec2Isabelle
  imports Main "HOL-Library.Word"
begin

section \<open>Tokens (lexer.cpp)\<close>

text \<open>
  Modelled from the spec: the header lexer.h, which declares \<open>Token\<close>, \<open>Location\<close> and the
  members of \<open>Lexer\<close>, is not under src/.  The token kinds are the ones that lexer.cpp and
  parser.cpp name.  Several enumerations of the program share member names (\<open>EQ\<close>, \<open>INT\<close>,
  ...); the members of \<open>Token::Kind\<close> carry the prefix \<open>T_\<close>.
\<close>

datatype Kind =
    T_FUNC | T_RETURN | T_WHILE | T_LET | T_IF | T_ELSE | T_TRUE | T_FALSE
  | T_LPAREN | T_RPAREN | T_LBRACE | T_RBRACE | T_COLON | T_SEMI
  | T_EQ | T_EQEQ | T_NEQ | T_GR | T_GREQ | T_LE | T_LEQ | T_BANG
  | T_COMMA | T_PLUS | T_INCR | T_MINUS | T_DECR | T_STAR | T_SLASH | T_MOD
  | T_INT | T_STRING | T_IDENT | T_END

record Location =
  Name :: string
  Line :: nat
  Column :: nat

text \<open>The payload union of a token: only INT, STRING and IDENT tokens own one.
  A name cannot end in an underscore here: the members \<open>loc_\<close>, \<open>kind_\<close>, \<open>value_\<close> of a
  token are \<open>tk_loc\<close>, \<open>tk_kind\<close>, \<open>tk_value\<close>, the members \<open>name_\<close>, \<open>chr_\<close>, \<open>tk_\<close>,
  \<open>lineNo_\<close>, \<open>charNo_\<close> of the lexer carry the prefix \<open>lx_\<close>, and those of the
  interpreter the prefix \<open>vm_\<close>.\<close>

datatype Payload = NoValue | IntValue "64 word" | StringValue string

record Token =
  tk_loc :: Location
  tk_kind :: Kind
  tk_value :: Payload

text \<open>Modelled from the spec: the factories of lexer.h for the tokens without payload
  (\<open>Token::End(loc)\<close>, \<open>Token::LParen(loc)\<close>, ...) build a token of the kind at the
  location; \<open>Is\<close> compares the kind.\<close>

definition mkToken :: "Location \<Rightarrow> Kind \<Rightarrow> Token" where
  "mkToken l k = \<lparr>tk_loc = l, tk_kind = k, tk_value = NoValue\<rparr>"

definition Token_Ident :: "Location \<Rightarrow> string \<Rightarrow> Token" where
  "Token_Ident l str = (mkToken l T_IDENT)\<lparr>tk_value := StringValue str\<rparr>"

definition Token_String :: "Location \<Rightarrow> string \<Rightarrow> Token" where
  "Token_String l str = (mkToken l T_STRING)\<lparr>tk_value := StringValue str\<rparr>"

definition Token_Integer :: "Location \<Rightarrow> 64 word \<Rightarrow> Token" where
  "Token_Integer l intVal = (mkToken l T_INT)\<lparr>tk_value := IntValue intVal\<rparr>"

definition Is :: "Token \<Rightarrow> Kind \<Rightarrow> bool" where
  "Is tk k = (tk_kind tk = k)"

text \<open>\<open>operator<<\<close> on a kind.  The switch has no case for TRUE, FALSE, BANG, GR and LE:
  for them the stream is returned as it is, nothing is printed.\<close>

fun print_Kind :: "Kind \<Rightarrow> string" where
  "print_Kind T_FUNC = ''func''"
| "print_Kind T_RETURN = ''return''"
| "print_Kind T_WHILE = ''while''"
| "print_Kind T_LET = ''let''"
| "print_Kind T_IF = ''if''"
| "print_Kind T_ELSE = ''else''"
| "print_Kind T_LPAREN = ''(''"
| "print_Kind T_RPAREN = '')''"
| "print_Kind T_LBRACE = ''{''"
| "print_Kind T_RBRACE = ''}''"
| "print_Kind T_COLON = '':''"
| "print_Kind T_SEMI = '';''"
| "print_Kind T_EQ = ''=''"
| "print_Kind T_EQEQ = ''==''"
| "print_Kind T_GREQ = ''>=''"
| "print_Kind T_LEQ = ''<=''"
| "print_Kind T_NEQ = ''!=''"
| "print_Kind T_COMMA = '',''"
| "print_Kind T_PLUS = ''+''"
| "print_Kind T_INCR = ''++''"
| "print_Kind T_MINUS = ''-''"
| "print_Kind T_DECR = ''--''"
| "print_Kind T_STAR = ''*''"
| "print_Kind T_SLASH = ''/''"
| "print_Kind T_MOD = ''%''"
| "print_Kind T_END = ''END''"
| "print_Kind T_INT = ''INT''"
| "print_Kind T_STRING = ''STRING''"
| "print_Kind T_IDENT = ''IDENT''"
| "print_Kind _ = []"

text \<open>Decimal printing of an unsigned number, as \<open>os << value_.IntValue\<close> does.\<close>

fun show_nat :: "nat \<Rightarrow> string" where
  "show_nat n =
     (if n < 10 then [char_of (48 + n)]
      else show_nat (n div 10) @ [char_of (48 + n mod 10)])"

declare show_nat.simps [simp del]

text \<open>\<open>Token::Print\<close>: the kind, then the payload in parentheses.\<close>

definition Token_Print :: "Token \<Rightarrow> string" where
  "Token_Print tk =
     print_Kind (tk_kind tk) @
     (case (tk_kind tk, tk_value tk) of
        (T_INT, IntValue i) \<Rightarrow> ''('' @ show_nat (unat i) @ '')''
      | (T_STRING, StringValue str) \<Rightarrow> ''('' @ [CHR 0x22] @ str @ [CHR 0x22] @ '')''
      | (T_IDENT, StringValue str) \<Rightarrow> ''('' @ str @ '')''
      | _ \<Rightarrow> [])"

section \<open>Errors\<close>

text \<open>
  \<open>LexerError\<close> and \<open>ParserError\<close> are exceptions built from a location and a message
  (\<open>FormatMessage\<close> joins them when the exception is constructed).  The conversion of an
  out-of-range double to \<open>uint64_t\<close> has no defined result in C++; the model gives it a
  value of its own, so that no theorem depends on what a compiler makes of it.
\<close>

datatype error =
    LexerError Location string
  | ParserError Location string
  | UndefinedConversion

definition FormatMessage :: "Location \<Rightarrow> string \<Rightarrow> string" where
  "FormatMessage loc msg =
     ''['' @ Name loc @ '':'' @ show_nat (Line loc) @ '':'' @ show_nat (Column loc) @ ''] '' @ msg"

text \<open>The text of the exception, \<open>what()\<close>.\<close>

fun what :: "error \<Rightarrow> string" where
  "what (LexerError loc msg) = FormatMessage loc msg"
| "what (ParserError loc msg) = FormatMessage loc msg"
| "what UndefinedConversion = []"

section \<open>The lexer (lexer.cpp)\<close>

text \<open>
  The state of a \<open>Lexer\<close>.  The input stream \<open>is_\<close> is a \<open>std::ifstream\<close>: the model keeps
  the characters not yet read (\<open>is_rest\<close>) and its end-of-file bit (\<open>is_eof\<close>), which a
  stream sets when a read finds no character, not when the last character is read.
\<close>

record Lexer =
  lx_name :: string
  is_rest :: string
  is_eof :: bool
  lx_chr :: char
  lx_tk :: Token
  lx_lineNo :: nat
  lx_charNo :: nat

text \<open>Modelled from the spec: \<open>GetLocation\<close> and \<open>GetToken\<close> of lexer.h return the rolling
  location (file name, line, column) and the most recently produced token.\<close>

definition GetLocation :: "Lexer \<Rightarrow> Location" where
  "GetLocation s = \<lparr>Name = lx_name s, Line = lx_lineNo s, Column = lx_charNo s\<rparr>"

definition GetToken :: "Lexer \<Rightarrow> Token" where
  "GetToken s = lx_tk s"

text \<open>\<open>is_.get(chr_)\<close>: stores the next character; at the end of the input it sets the
  end-of-file bit and leaves the current character as it was.\<close>

definition is_get :: "Lexer \<Rightarrow> Lexer" where
  "is_get s =
     (case is_rest s of
        [] \<Rightarrow> s\<lparr>is_eof := True\<rparr>
      | c # cs \<Rightarrow> s\<lparr>is_rest := cs, lx_chr := c\<rparr>)"

definition NextChar :: "Lexer \<Rightarrow> Lexer" where
  "NextChar s =
     (if is_eof s then s\<lparr>lx_chr := CHR 0x00\<rparr>
      else is_get (if lx_chr s = CHR 0x0A
                   then s\<lparr>lx_lineNo := lx_lineNo s + 1, lx_charNo := 1\<rparr>
                   else s\<lparr>lx_charNo := lx_charNo s + 1\<rparr>))"

text \<open>\<open>PeekChar\<close> returns the character and the stream, whose end-of-file bit \<open>peek\<close>
  sets at the end of the input; the end-of-file value -1 becomes the character 0xFF.\<close>

definition PeekChar :: "Lexer \<Rightarrow> char \<times> Lexer" where
  "PeekChar s =
     (if is_eof s then (CHR 0x00, s)
      else (case is_rest s of
              [] \<Rightarrow> (CHR 0xFF, s\<lparr>is_eof := True\<rparr>)
            | c # cs \<Rightarrow> (c, s)))"

definition Error :: "Lexer \<Rightarrow> string \<Rightarrow> error" where
  "Error s msg = LexerError (GetLocation s) msg"

text \<open>The character classes of the C locale.\<close>

definition isspace :: "char \<Rightarrow> bool" where
  "isspace c = (c = CHR 0x20 \<or> (9::nat) \<le> of_char c \<and> of_char c \<le> (13::nat))"

definition isdigit :: "char \<Rightarrow> bool" where
  "isdigit c = ((48::nat) \<le> of_char c \<and> of_char c \<le> (57::nat))"

definition isalpha :: "char \<Rightarrow> bool" where
  "isalpha c = ((65::nat) \<le> of_char c \<and> of_char c \<le> (90::nat)
              \<or> (97::nat) \<le> of_char c \<and> of_char c \<le> (122::nat))"

definition IsIdentStart :: "char \<Rightarrow> bool" where
  "IsIdentStart c = (c = CHR ''_'' \<or> isalpha c)"

definition IsIdentLetter :: "char \<Rightarrow> bool" where
  "IsIdentLetter c = (IsIdentStart c \<or> isdigit c)"

text \<open>What is left to read: the loops of the lexer stop because this goes down.\<close>

definition remaining :: "Lexer \<Rightarrow> nat" where
  "remaining s = 2 * length (is_rest s) + (if is_eof s then 0 else 2)
                 + (if lx_chr s = CHR 0x00 then 0 else 1)"

text \<open>\<open>while (isspace(chr_)) NextChar();\<close>\<close>

function SkipSpace :: "Lexer \<Rightarrow> Lexer" where
  "SkipSpace s = (if isspace (lx_chr s) then SkipSpace (NextChar s) else s)"
  by pat_completeness auto
termination
  by (relation "measure remaining")
     (auto simp: remaining_def NextChar_def is_get_def isspace_def split: list.splits)

declare SkipSpace.simps [simp del]

text \<open>The body of a string literal:
  \<open>while (chr_ != '"') { word.push_back(chr_); NextChar(); if (chr_ == '\0') Error(...); }\<close>\<close>

function StringLoop :: "string \<Rightarrow> Lexer \<Rightarrow> error + (string \<times> Lexer)" where
  "StringLoop word s =
     (if lx_chr s \<noteq> CHR 0x22
      then (if lx_chr (NextChar s) = CHR 0x00
            then Inl (Error (NextChar s) ''string not terminated'')
            else StringLoop (word @ [lx_chr s]) (NextChar s))
      else Inr (word, s))"
  by pat_completeness auto
termination
  by (relation "measure (\<lambda>(word, s). remaining s)")
     (auto simp: remaining_def NextChar_def is_get_def split: list.splits if_splits)

declare StringLoop.simps [simp del]

text \<open>\<open>do { word.push_back(chr_); NextChar(); } while (isdigit(chr_));\<close>\<close>

function DigitLoop :: "string \<Rightarrow> Lexer \<Rightarrow> string \<times> Lexer" where
  "DigitLoop word s =
     (if isdigit (lx_chr (NextChar s))
      then DigitLoop (word @ [lx_chr s]) (NextChar s)
      else (word @ [lx_chr s], NextChar s))"
  by pat_completeness auto
termination
  by (relation "measure (\<lambda>(word, s). remaining s)")
     (auto simp: remaining_def NextChar_def is_get_def isdigit_def split: list.splits if_splits)

declare DigitLoop.simps [simp del]

text \<open>\<open>do { word.push_back(chr_); NextChar(); } while (IsIdentLetter(chr_));\<close>\<close>

function IdentLoop :: "string \<Rightarrow> Lexer \<Rightarrow> string \<times> Lexer" where
  "IdentLoop word s =
     (if IsIdentLetter (lx_chr (NextChar s))
      then IdentLoop (word @ [lx_chr s]) (NextChar s)
      else (word @ [lx_chr s], NextChar s))"
  by pat_completeness auto
termination
  by (relation "measure (\<lambda>(word, s). remaining s)")
     (auto simp: remaining_def NextChar_def is_get_def IsIdentLetter_def IsIdentStart_def
        isalpha_def isdigit_def split: list.splits if_splits)

declare IdentLoop.simps [simp del]

subsection \<open>\<open>std::stod\<close> on a run of digits\<close>

text \<open>
  The lexer converts the digits with \<open>std::stod\<close>, which returns a double, and assigns the
  double to a \<open>uint64_t\<close>.  On a string of decimal digits \<open>stod\<close> returns the double nearest
  to the number written (ties to the even mantissa), and throws \<open>std::out_of_range\<close> when
  that is beyond the largest double.  Every such double is a natural number, and the
  model computes it as one: a number below \<open>2 ^ 53\<close> is a double itself, a longer one keeps
  its 53 leading bits.
\<close>

definition decimal_value :: "string \<Rightarrow> nat" where
  "decimal_value word = foldl (\<lambda>n c. 10 * n + (of_char c - 48)) 0 word"

fun bit_length :: "nat \<Rightarrow> nat" where
  "bit_length n = (if n = 0 then 0 else Suc (bit_length (n div 2)))"

declare bit_length.simps [simp del]

definition round_to_double :: "nat \<Rightarrow> nat" where
  "round_to_double n =
     (if n < 2 ^ 53 then n
      else
        let e = bit_length n - 53;
            q = n div 2 ^ e;
            r = n mod 2 ^ e;
            half = 2 ^ (e - 1)
        in if r < half \<or> (r = half \<and> even q) then q * 2 ^ e else (q + 1) * 2 ^ e)"

text \<open>\<open>None\<close> is the exception \<open>std::out_of_range\<close>.\<close>

definition stod :: "string \<Rightarrow> nat option" where
  "stod word =
     (let d = round_to_double (decimal_value word)
      in if d < 2 ^ 1024 then Some d else None)"

text \<open>The implicit conversion of \<open>uint64_t val = <double>\<close>: defined when the value fits.\<close>

definition double_to_uint64 :: "nat \<Rightarrow> error + 64 word" where
  "double_to_uint64 d = (if d < 2 ^ 64 then Inr (word_of_nat d) else Inl UndefinedConversion)"

subsection \<open>\<open>Lexer::Next\<close>\<close>

definition emit :: "Lexer \<Rightarrow> Token \<Rightarrow> error + Lexer" where
  "emit s t = Inr (s\<lparr>lx_tk := t\<rparr>)"

definition keyword_or_ident :: "Location \<Rightarrow> string \<Rightarrow> Token" where
  "keyword_or_ident loc word =
     (if word = ''func'' then mkToken loc T_FUNC
      else if word = ''return'' then mkToken loc T_RETURN
      else if word = ''while'' then mkToken loc T_WHILE
      else if word = ''let'' then mkToken loc T_LET
      else if word = ''if'' then mkToken loc T_IF
      else if word = ''else'' then mkToken loc T_ELSE
      else Token_Ident loc word)"

definition NextToken :: "Lexer \<Rightarrow> error + Lexer" where
  "NextToken s =
     (let loc = GetLocation s; c = lx_chr s in
      if c = CHR 0x00 then emit s (mkToken loc T_END)
      else if c = CHR ''('' then emit (NextChar s) (mkToken loc T_LPAREN)
      else if c = CHR '')'' then emit (NextChar s) (mkToken loc T_RPAREN)
      else if c = CHR ''{'' then emit (NextChar s) (mkToken loc T_LBRACE)
      else if c = CHR ''}'' then emit (NextChar s) (mkToken loc T_RBRACE)
      else if c = CHR '':'' then emit (NextChar s) (mkToken loc T_COLON)
      else if c = CHR '';'' then emit (NextChar s) (mkToken loc T_SEMI)
      else if c = CHR ''*'' then emit (NextChar s) (mkToken loc T_STAR)
      else if c = CHR ''/'' then emit (NextChar s) (mkToken loc T_SLASH)
      else if c = CHR ''%'' then emit (NextChar s) (mkToken loc T_MOD)
      else if c = CHR ''='' then
        (case PeekChar s of (p, s1) \<Rightarrow>
           if p = CHR ''='' then emit (NextChar (NextChar s1)) (mkToken loc T_EQEQ)
           else emit (NextChar s1) (mkToken loc T_EQ))
      else if c = CHR ''+'' then
        (case PeekChar s of (p, s1) \<Rightarrow>
           if p = CHR ''+'' then emit (NextChar (NextChar s1)) (mkToken loc T_INCR)
           else emit (NextChar s1) (mkToken loc T_PLUS))
      else if c = CHR ''-'' then
        (case PeekChar s of (p, s1) \<Rightarrow>
           if p = CHR ''-'' then emit (NextChar (NextChar s1)) (mkToken loc T_DECR)
           else emit (NextChar s1) (mkToken loc T_MINUS))
      else if c = CHR '','' then emit (NextChar s) (mkToken loc T_COMMA)
      else if c = CHR 0x22 then
        (case StringLoop [] (NextChar s) of
           Inl e \<Rightarrow> Inl e
         | Inr (word, s1) \<Rightarrow> emit (NextChar s1) (Token_String loc word))
      else if isdigit c then
        (case DigitLoop [] s of (word, s1) \<Rightarrow>
           (case stod word of
              None \<Rightarrow> Inl (Error s1 (''Integer literal out of range!'' @ [CHR 0x0A]))
            | Some d \<Rightarrow>
                (case double_to_uint64 d of
                   Inl e \<Rightarrow> Inl e
                 | Inr val \<Rightarrow> emit s1 (Token_Integer loc val))))
      else if IsIdentStart c then
        (case IdentLoop [] s of (word, s1) \<Rightarrow> emit s1 (keyword_or_ident loc word))
      else Inl (Error s (''unknown character '' @ [CHR 0x27, c, CHR 0x27])))"

text \<open>\<open>Next\<close>: skip the white space, then produce the token at the current character.\<close>

definition Next :: "Lexer \<Rightarrow> error + Lexer" where
  "Next s = NextToken (SkipSpace s)"

text \<open>
  Modelled from the spec: the initial values of the members, which lexer.h declares.
  The constructor \<open>Lexer(name)\<close> opens the file and calls \<open>NextChar\<close> and \<open>Next\<close>.  Here the
  contents of the file are given with its name, and the members start at line 1,
  column 1, the character NUL and an END token.  Only the line and column numbers in
  the results below depend on these values.
\<close>

definition Lexer_open :: "string \<Rightarrow> string \<Rightarrow> Lexer" where
  "Lexer_open name contents =
     \<lparr>lx_name = name, is_rest = contents, is_eof = False, lx_chr = CHR 0x00,
      lx_tk = mkToken \<lparr>Name = name, Line = 1, Column = 1\<rparr> T_END,
      lx_lineNo = 1, lx_charNo = 1\<rparr>"

definition Lexer_new :: "string \<Rightarrow> string \<Rightarrow> error + Lexer" where
  "Lexer_new name contents = Next (NextChar (Lexer_open name contents))"

section \<open>The syntax tree (ast.h)\<close>

text \<open>
  A \<open>std::shared_ptr\<close> that the parser may leave null.  Every other child of a node is
  made by \<open>std::make_shared\<close> just before the node is built, so it is never null and the
  model holds the child itself; the false branch of an \<open>IfStmt\<close> is the one slot that the
  parser fills with \<open>nullptr\<close>.
\<close>

datatype 'a shared_ptr = nullptr | make_shared 'a

datatype BinaryKind =
  B_EQ | B_NEQ | B_MUL | B_DIV | B_MOD | B_LE | B_GR | B_LEQ | B_GREQ | B_ADD | B_SUB

datatype UnaryKind = U_NOT | U_NEG

datatype Expr =
    IntExpr "64 word"
  | BoolExpr bool
  | StringExpr string
  | RefExpr string
  | BinaryExpr BinaryKind Expr Expr
  | UnaryExpr UnaryKind Expr
  | CallExpr Expr "Expr list"

datatype Stmt =
    BlockStmt "Stmt list"
  | ExprStmt Expr
  | ReturnStmt Expr
  | IfStmt Expr Stmt "Stmt shared_ptr"
  | WhileStmt Expr Stmt
  | VarDeclStmt string string Expr

text \<open>
  The accessors of \<open>IfStmt\<close> return \<open>*tstmt_\<close> and \<open>*fstmt_\<close> with no test.  Dereferencing a
  null \<open>shared_ptr\<close> has no defined result: the model returns \<open>None\<close> there and for a
  statement that is not an \<open>IfStmt\<close>.
\<close>

fun GetTrueBranchStmt :: "Stmt \<Rightarrow> Stmt option" where
  "GetTrueBranchStmt (IfStmt cond tstmt fstmt) = Some tstmt"
| "GetTrueBranchStmt _ = None"

fun GetFalseBranchStmt :: "Stmt \<Rightarrow> Stmt option" where
  "GetFalseBranchStmt (IfStmt cond tstmt (make_shared fstmt)) = Some fstmt"
| "GetFalseBranchStmt _ = None"

section \<open>The parser (parser.cpp)\<close>

text \<open>
  The parser holds a reference to the lexer and nothing else, so its state is the state
  of the lexer.  A parsing function returns its node with the new state (\<open>Ok\<close>), throws
  (\<open>Throw\<close>), or has not returned when the fuel is used up (\<open>OutOfFuel\<close>): the recursion of
  the parser is not bounded by the input, so each function takes the number \<open>n\<close> of nested
  calls and loop turns it may still make.

  \<open>ParseExpr\<close> is entered again from \<open>ParseTermExpr\<close> (parentheses) and from the argument
  list of a call, \<open>ParseStmt\<close> from the bodies of blocks, loops and conditionals.  The
  functions in between take that inner parser as the argument \<open>pe\<close> (or \<open>ps\<close>);
  \<open>ParseExpr\<close> and \<open>ParseStmt\<close> close the recursion by passing themselves with one unit
  of fuel less.
\<close>

datatype 'a result = Ok 'a Lexer | Throw error | OutOfFuel

definition Current :: "Lexer \<Rightarrow> Token" where
  "Current s = GetToken s"

definition Parser_Error :: "Location \<Rightarrow> string \<Rightarrow> error" where
  "Parser_Error loc msg = ParserError loc msg"

definition Check :: "Kind \<Rightarrow> Lexer \<Rightarrow> Token result" where
  "Check kind s =
     (let tk = Current s in
      if kind \<noteq> tk_kind tk
      then Throw (Parser_Error (tk_loc tk)
                    (''unexpected '' @ Token_Print tk @ '', expecting '' @ print_Kind kind))
      else Ok tk s)"

definition Expect :: "Kind \<Rightarrow> Lexer \<Rightarrow> Token result" where
  "Expect kind s = (case Next s of Inl e \<Rightarrow> Throw e | Inr s1 \<Rightarrow> Check kind s1)"

text \<open>\<open>lexer_.Next()\<close> inside the parser, and the sequencing of two steps.\<close>

definition Advance :: "Lexer \<Rightarrow> unit result" where
  "Advance s = (case Next s of Inl e \<Rightarrow> Throw e | Inr s1 \<Rightarrow> Ok () s1)"

definition andThen :: "'a result \<Rightarrow> ('a \<Rightarrow> Lexer \<Rightarrow> 'b result) \<Rightarrow> 'b result" where
  "andThen r f = (case r of Ok a s \<Rightarrow> f a s | Throw e \<Rightarrow> Throw e | OutOfFuel \<Rightarrow> OutOfFuel)"

text \<open>Modelled from the spec: the payload accessors of lexer.h.  The parser calls each of
  them on a token of the matching kind only.\<close>

definition GetIdent :: "Token \<Rightarrow> string" where
  "GetIdent tk = (case tk_value tk of StringValue str \<Rightarrow> str | _ \<Rightarrow> [])"

definition GetString :: "Token \<Rightarrow> string" where
  "GetString tk = (case tk_value tk of StringValue str \<Rightarrow> str | _ \<Rightarrow> [])"

definition GetInteger :: "Token \<Rightarrow> 64 word" where
  "GetInteger tk = (case tk_value tk of IntValue i \<Rightarrow> i | _ \<Rightarrow> 0)"

definition term_error :: "Token \<Rightarrow> error" where
  "term_error tk =
     Parser_Error (tk_loc tk) (''unexpected '' @ Token_Print tk @ '', expecting term'')"

subsection \<open>Expressions\<close>

definition ParseTermExpr :: "(Lexer \<Rightarrow> Expr result) \<Rightarrow> Lexer \<Rightarrow> Expr result" where
  "ParseTermExpr pe s =
     (let tk = Current s; k = tk_kind tk in
      if k = T_INT then
        andThen (Advance s) (\<lambda>_ s1. Ok (IntExpr (GetInteger tk)) s1)
      else if k = T_TRUE then
        andThen (Advance s) (\<lambda>_ s1. Ok (BoolExpr True) s1)
      else if k = T_FALSE then
        andThen (Advance s) (\<lambda>_ s1. Ok (BoolExpr False) s1)
      else if k = T_STRING then
        andThen (Advance s) (\<lambda>_ s1. Ok (StringExpr (GetString tk)) s1)
      else if k = T_IDENT then
        andThen (Advance s) (\<lambda>_ s1. Ok (RefExpr (GetIdent tk)) s1)
      else if Is (Current s) T_LPAREN then
        andThen (Advance s) (\<lambda>_ s1.
        andThen (pe s1) (\<lambda>expr s2.
        andThen (Check T_RPAREN s2) (\<lambda>_ s3.
        andThen (Advance s3) (\<lambda>_ s4.
        Ok expr s4))))
      else Throw (term_error tk))"

text \<open>The loop of \<open>ParseArgumentList\<close>:
  \<open>while (!lexer_.Next().Is(RPAREN)) { args.push_back(ParseExpr()); if (!Current().Is(COMMA)) break; }\<close>\<close>

fun ArgumentLoop :: "(Lexer \<Rightarrow> Expr result) \<Rightarrow> nat \<Rightarrow> Expr list \<Rightarrow> Lexer \<Rightarrow> (Expr list) result" where
  "ArgumentLoop pe 0 args s = OutOfFuel"
| "ArgumentLoop pe (Suc n) args s =
     andThen (Advance s) (\<lambda>_ s1.
       if Is (Current s1) T_RPAREN then Ok args s1
       else andThen (pe s1) (\<lambda>e s2.
              if \<not> Is (Current s2) T_COMMA then Ok (args @ [e]) s2
              else ArgumentLoop pe n (args @ [e]) s2))"

definition ParseArgumentList :: "(Lexer \<Rightarrow> Expr result) \<Rightarrow> nat \<Rightarrow> Expr \<Rightarrow> Lexer \<Rightarrow> Expr result" where
  "ParseArgumentList pe n callee s =
     andThen (ArgumentLoop pe n [] s) (\<lambda>args s1.
     andThen (Check T_RPAREN s1) (\<lambda>_ s2.
     andThen (Advance s2) (\<lambda>_ s3.
     Ok (CallExpr callee args) s3)))"

definition ParseCallExpr :: "(Lexer \<Rightarrow> Expr result) \<Rightarrow> nat \<Rightarrow> Lexer \<Rightarrow> Expr result" where
  "ParseCallExpr pe n s =
     andThen (ParseTermExpr pe s) (\<lambda>expr s1.
       if Is (Current s1) T_LPAREN then ParseArgumentList pe n expr s1
       else Ok expr s1)"

text \<open>\<open>ParseUnaryExpr\<close> calls itself on BANG and MINUS, and the lexer is not advanced
  before the call.\<close>

fun ParseUnaryExpr :: "(Lexer \<Rightarrow> Expr result) \<Rightarrow> nat \<Rightarrow> Lexer \<Rightarrow> Expr result" where
  "ParseUnaryExpr pe 0 s = OutOfFuel"
| "ParseUnaryExpr pe (Suc n) s =
     (let k = tk_kind (Current s) in
      if k = T_BANG then
        andThen (ParseUnaryExpr pe n s) (\<lambda>operand s1. Ok (UnaryExpr U_NOT operand) s1)
      else if k = T_MINUS then
        andThen (ParseUnaryExpr pe n s) (\<lambda>operand s1. Ok (UnaryExpr U_NEG operand) s1)
      else ParseCallExpr pe n s)"

fun MulDivLoop :: "(Lexer \<Rightarrow> Expr result) \<Rightarrow> nat \<Rightarrow> Expr \<Rightarrow> Lexer \<Rightarrow> Expr result" where
  "MulDivLoop pe 0 lhs s = OutOfFuel"
| "MulDivLoop pe (Suc n) lhs s =
     (let kind = tk_kind (Current s) in
      if kind = T_STAR \<or> kind = T_SLASH \<or> kind = T_MOD then
        andThen (Advance s) (\<lambda>_ s1.
        andThen (ParseUnaryExpr pe n s1) (\<lambda>rhs s2.
        MulDivLoop pe n
          (if kind = T_STAR then BinaryExpr B_MUL lhs rhs
           else if kind = T_SLASH then BinaryExpr B_DIV lhs rhs
           else BinaryExpr B_MOD lhs rhs) s2))
      else Ok lhs s)"

definition ParseMulDivExpr :: "(Lexer \<Rightarrow> Expr result) \<Rightarrow> nat \<Rightarrow> Lexer \<Rightarrow> Expr result" where
  "ParseMulDivExpr pe n s =
     andThen (ParseUnaryExpr pe n s) (\<lambda>lhs s1. MulDivLoop pe n lhs s1)"

fun AddSubLoop :: "(Lexer \<Rightarrow> Expr result) \<Rightarrow> nat \<Rightarrow> Expr \<Rightarrow> Lexer \<Rightarrow> Expr result" where
  "AddSubLoop pe 0 lhs s = OutOfFuel"
| "AddSubLoop pe (Suc n) lhs s =
     (let kind = tk_kind (Current s) in
      if kind = T_PLUS \<or> kind = T_MINUS then
        andThen (Advance s) (\<lambda>_ s1.
        andThen (ParseMulDivExpr pe n s1) (\<lambda>rhs s2.
        AddSubLoop pe n (if kind = T_PLUS then BinaryExpr B_ADD lhs rhs
                         else BinaryExpr B_SUB lhs rhs) s2))
      else Ok lhs s)"

definition ParseAddSubExpr :: "(Lexer \<Rightarrow> Expr result) \<Rightarrow> nat \<Rightarrow> Lexer \<Rightarrow> Expr result" where
  "ParseAddSubExpr pe n s =
     andThen (ParseMulDivExpr pe n s) (\<lambda>lhs s1. AddSubLoop pe n lhs s1)"

fun ComparisonLoop :: "(Lexer \<Rightarrow> Expr result) \<Rightarrow> nat \<Rightarrow> Expr \<Rightarrow> Lexer \<Rightarrow> Expr result" where
  "ComparisonLoop pe 0 lhs s = OutOfFuel"
| "ComparisonLoop pe (Suc n) lhs s =
     (let kind = tk_kind (Current s) in
      if kind = T_GR \<or> kind = T_GREQ \<or> kind = T_LE \<or> kind = T_LEQ then
        andThen (Advance s) (\<lambda>_ s1.
        andThen (ParseAddSubExpr pe n s1) (\<lambda>rhs s2.
        ComparisonLoop pe n
          (if kind = T_GR then BinaryExpr B_GR lhs rhs
           else if kind = T_GREQ then BinaryExpr B_GREQ lhs rhs
           else if kind = T_LE then BinaryExpr B_LE lhs rhs
           else BinaryExpr B_LEQ lhs rhs) s2))
      else Ok lhs s)"

definition ParseComparisonExpr :: "(Lexer \<Rightarrow> Expr result) \<Rightarrow> nat \<Rightarrow> Lexer \<Rightarrow> Expr result" where
  "ParseComparisonExpr pe n s =
     andThen (ParseAddSubExpr pe n s) (\<lambda>lhs s1. ComparisonLoop pe n lhs s1)"

fun EqualityLoop :: "(Lexer \<Rightarrow> Expr result) \<Rightarrow> nat \<Rightarrow> Expr \<Rightarrow> Lexer \<Rightarrow> Expr result" where
  "EqualityLoop pe 0 lhs s = OutOfFuel"
| "EqualityLoop pe (Suc n) lhs s =
     (let kind = tk_kind (Current s) in
      if kind = T_EQEQ \<or> kind = T_NEQ then
        andThen (Advance s) (\<lambda>_ s1.
        andThen (ParseComparisonExpr pe n s1) (\<lambda>rhs s2.
        EqualityLoop pe n (if kind = T_EQEQ then BinaryExpr B_EQ lhs rhs
                           else BinaryExpr B_NEQ lhs rhs) s2))
      else Ok lhs s)"

definition ParseEqualityExpr :: "(Lexer \<Rightarrow> Expr result) \<Rightarrow> nat \<Rightarrow> Lexer \<Rightarrow> Expr result" where
  "ParseEqualityExpr pe n s =
     andThen (ParseComparisonExpr pe n s) (\<lambda>lhs s1. EqualityLoop pe n lhs s1)"

fun ParseExpr :: "nat \<Rightarrow> Lexer \<Rightarrow> Expr result" where
  "ParseExpr 0 s = OutOfFuel"
| "ParseExpr (Suc n) s = ParseEqualityExpr (ParseExpr n) n s"

subsection \<open>Statements\<close>

definition ParseReturnStmt :: "nat \<Rightarrow> Lexer \<Rightarrow> Stmt result" where
  "ParseReturnStmt n s =
     andThen (Check T_RETURN s) (\<lambda>_ s1.
     andThen (Advance s1) (\<lambda>_ s2.
     andThen (ParseExpr n s2) (\<lambda>expr s3.
     Ok (ReturnStmt expr) s3)))"

definition ParseWhileStmt :: "(Lexer \<Rightarrow> Stmt result) \<Rightarrow> nat \<Rightarrow> Lexer \<Rightarrow> Stmt result" where
  "ParseWhileStmt ps n s =
     andThen (Check T_WHILE s) (\<lambda>_ s1.
     andThen (Expect T_LPAREN s1) (\<lambda>_ s2.
     andThen (Advance s2) (\<lambda>_ s3.
     andThen (ParseExpr n s3) (\<lambda>cond s4.
     andThen (Check T_RPAREN s4) (\<lambda>_ s5.
     andThen (Advance s5) (\<lambda>_ s6.
     andThen (ps s6) (\<lambda>stmt s7.
     Ok (WhileStmt cond stmt) s7)))))))"

definition ParseIfStmt :: "(Lexer \<Rightarrow> Stmt result) \<Rightarrow> nat \<Rightarrow> Lexer \<Rightarrow> Stmt result" where
  "ParseIfStmt ps n s =
     andThen (Check T_IF s) (\<lambda>_ s1.
     andThen (Expect T_LPAREN s1) (\<lambda>_ s2.
     andThen (Advance s2) (\<lambda>_ s3.
     andThen (ParseExpr n s3) (\<lambda>cond s4.
     andThen (Check T_RPAREN s4) (\<lambda>_ s5.
     andThen (Advance s5) (\<lambda>_ s6.
     andThen (ps s6) (\<lambda>tstmt s7.
       if \<not> Is (Current s7) T_ELSE then Ok (IfStmt cond tstmt nullptr) s7
       else andThen (Advance s7) (\<lambda>_ s8.
            andThen (ps s8) (\<lambda>fstmt s9.
            Ok (IfStmt cond tstmt (make_shared fstmt)) s9)))))))))"

definition ParseVarDeclStmt :: "nat \<Rightarrow> Lexer \<Rightarrow> Stmt result" where
  "ParseVarDeclStmt n s =
     andThen (Check T_LET s) (\<lambda>_ s1.
     andThen (Expect T_IDENT s1) (\<lambda>_ s2.
     let name = GetIdent (Current s2) in
     andThen (Expect T_COLON s2) (\<lambda>_ s3.
     andThen (Expect T_IDENT s3) (\<lambda>_ s4.
     let type = GetIdent (Current s4) in
     andThen (Expect T_EQ s4) (\<lambda>_ s5.
     andThen (Advance s5) (\<lambda>_ s6.
     andThen (ParseExpr n s6) (\<lambda>expr s7.
     andThen (Check T_SEMI s7) (\<lambda>_ s8.
     Ok (VarDeclStmt name type expr) s8))))))))"

text \<open>The loop of \<open>ParseBlockStmt\<close>:
  \<open>while (!lexer_.Next().Is(RBRACE)) { body.push_back(ParseStmt()); if (!Current().Is(SEMI)) break; }\<close>\<close>

fun BlockLoop :: "(Lexer \<Rightarrow> Stmt result) \<Rightarrow> nat \<Rightarrow> Stmt list \<Rightarrow> Lexer \<Rightarrow> (Stmt list) result" where
  "BlockLoop ps 0 body s = OutOfFuel"
| "BlockLoop ps (Suc n) body s =
     andThen (Advance s) (\<lambda>_ s1.
       if Is (Current s1) T_RBRACE then Ok body s1
       else andThen (ps s1) (\<lambda>st s2.
              if \<not> Is (Current s2) T_SEMI then Ok (body @ [st]) s2
              else BlockLoop ps n (body @ [st]) s2))"

definition ParseBlockStmt :: "(Lexer \<Rightarrow> Stmt result) \<Rightarrow> nat \<Rightarrow> Lexer \<Rightarrow> Stmt result" where
  "ParseBlockStmt ps n s =
     andThen (Check T_LBRACE s) (\<lambda>_ s1.
     andThen (BlockLoop ps n [] s1) (\<lambda>body s2.
     andThen (Check T_RBRACE s2) (\<lambda>_ s3.
     andThen (Advance s3) (\<lambda>_ s4.
     Ok (BlockStmt body) s4))))"

fun ParseStmt :: "nat \<Rightarrow> Lexer \<Rightarrow> Stmt result" where
  "ParseStmt 0 s = OutOfFuel"
| "ParseStmt (Suc n) s =
     (let k = tk_kind (Current s) in
      if k = T_RETURN then ParseReturnStmt n s
      else if k = T_WHILE then ParseWhileStmt (ParseStmt n) n s
      else if k = T_IF then ParseIfStmt (ParseStmt n) n s
      else if k = T_LET then ParseVarDeclStmt n s
      else if k = T_LBRACE then ParseBlockStmt (ParseStmt n) n s
      else andThen (ParseExpr n s) (\<lambda>e s1. Ok (ExprStmt e) s1))"

section \<open>The virtual machine (interp.cpp, runtime.cpp)\<close>

text \<open>
  The host primitives of runtime.cpp.  A \<open>RuntimeFn\<close> is a pointer to one of them; the
  model names the function pointed to.
\<close>

datatype RuntimeFn = PrintInt | ReadInt | PrintBool

definition kRuntimeFns :: "string \<rightharpoonup> RuntimeFn" where
  "kRuntimeFns = [''print_int'' \<mapsto> PrintInt, ''read_int'' \<mapsto> ReadInt, ''print_bool'' \<mapsto> PrintBool]"

text \<open>A runtime value: the kind tag with its payload.  An integer is an \<open>int64_t\<close>, read
  as signed by \<open>sint\<close>; a code address is a \<open>size_t\<close>.\<close>

datatype Value =
    V_PROTO RuntimeFn
  | V_ADDR "64 word"
  | V_INT "64 word"
  | V_BOOL bool
  | V_STRING string

datatype Opcode =
    OP_PUSH_FUNC | OP_PUSH_PROTO | OP_PEEK | OP_POP | OP_CALL
  | OP_ADD | OP_SUB | OP_MUL | OP_DIV | OP_MOD
  | OP_EQ | OP_NEQ | OP_LEQ | OP_GREQ | OP_LE | OP_GR
  | OP_NEG | OP_NOT | OP_RET | OP_JUMP_FALSE | OP_JUMP
  | OP_PUSH_INT | OP_PUSH_BOOL | OP_PUSH_STRING | OP_STOP

text \<open>
  The state of the interpreter: the instruction pointer \<open>pc_\<close>, the stack \<open>stack_\<close> (a
  vector: the bottom first, the top last), and the two streams that the primitives use,
  the integers still to be read from \<open>std::cin\<close> and the text written to \<open>std::cout\<close>.
\<close>

record Interp =
  vm_pc :: "64 word"
  vm_stack :: "Value list"
  vm_cin :: "64 word list"
  vm_cout :: string

text \<open>
  What can end a step other than its result: the \<open>RuntimeError\<close> of the interpreter, the
  \<open>std::logic_error\<close> of \<open>PUSH_STRING\<close>, the \<open>std::length_error\<close> of a vector asked to grow
  beyond its maximal size, and behaviour that C++ leaves undefined (reading below the
  stack, dividing by zero, decoding a cell of the wrong type).  An exception leaves the
  state as it was when thrown, and the model keeps that state.
\<close>

datatype exn = RuntimeError string | LogicError string | LengthError | Undefined

datatype 'a vm = Done 'a Interp | Raised exn Interp

definition vmThen :: "'a vm \<Rightarrow> ('a \<Rightarrow> Interp \<Rightarrow> 'b vm) \<Rightarrow> 'b vm" where
  "vmThen r f = (case r of Done a s \<Rightarrow> f a s | Raised e s \<Rightarrow> Raised e s)"

subsection \<open>The program\<close>

text \<open>
  Modelled from the spec: program.h is not under src/.  The instruction stream is a
  sequence of encoded cells, each addressed by its byte offset: a one-byte opcode, then
  the operands of that opcode (\<open>size_t\<close> addresses and 64-bit integers of 8 bytes,
  \<open>unsigned\<close> indices of 4 bytes, one-byte booleans, primitive handles of pointer width).
  \<open>Read<T>(pc_)\<close> decodes the cell at \<open>pc_\<close> and moves \<open>pc_\<close> past it; decoding a cell
  that holds another type has no defined result.
\<close>

datatype Cell =
    C_Opcode Opcode
  | C_size_t "64 word"
  | C_unsigned "32 word"
  | C_int64 "64 word"
  | C_bool bool
  | C_RuntimeFn RuntimeFn

type_synonym Program = "64 word \<Rightarrow> Cell option"

definition skip :: "64 word \<Rightarrow> Interp \<Rightarrow> Interp" where
  "skip w s = s\<lparr>vm_pc := vm_pc s + w\<rparr>"

definition Read_Opcode :: "Program \<Rightarrow> Interp \<Rightarrow> Opcode vm" where
  "Read_Opcode prog s =
     (case prog (vm_pc s) of Some (C_Opcode op) \<Rightarrow> Done op (skip 1 s) | _ \<Rightarrow> Raised Undefined s)"

definition Read_size_t :: "Program \<Rightarrow> Interp \<Rightarrow> (64 word) vm" where
  "Read_size_t prog s =
     (case prog (vm_pc s) of Some (C_size_t a) \<Rightarrow> Done a (skip 8 s) | _ \<Rightarrow> Raised Undefined s)"

definition Read_unsigned :: "Program \<Rightarrow> Interp \<Rightarrow> (32 word) vm" where
  "Read_unsigned prog s =
     (case prog (vm_pc s) of Some (C_unsigned u) \<Rightarrow> Done u (skip 4 s) | _ \<Rightarrow> Raised Undefined s)"

definition Read_int64 :: "Program \<Rightarrow> Interp \<Rightarrow> (64 word) vm" where
  "Read_int64 prog s =
     (case prog (vm_pc s) of Some (C_int64 i) \<Rightarrow> Done i (skip 8 s) | _ \<Rightarrow> Raised Undefined s)"

definition Read_bool :: "Program \<Rightarrow> Interp \<Rightarrow> bool vm" where
  "Read_bool prog s =
     (case prog (vm_pc s) of Some (C_bool b) \<Rightarrow> Done b (skip 1 s) | _ \<Rightarrow> Raised Undefined s)"

definition Read_RuntimeFn :: "Program \<Rightarrow> Interp \<Rightarrow> RuntimeFn vm" where
  "Read_RuntimeFn prog s =
     (case prog (vm_pc s) of Some (C_RuntimeFn f) \<Rightarrow> Done f (skip 8 s) | _ \<Rightarrow> Raised Undefined s)"

subsection \<open>The stack\<close>

text \<open>
  Modelled from the spec: interp.h is not under src/, and with it the stack helpers that
  interp.cpp and runtime.cpp call.  \<open>Push\<close> appends a value; \<open>Pop\<close> removes and returns
  the top value; \<open>PopInt\<close>, \<open>PopBool\<close> and \<open>PopAddr\<close> pop and check the tag, failing with a
  typed runtime error on another tag; \<open>PeekInt\<close> and \<open>PeekBool\<close> check and return the top
  value and leave it on the stack.  The texts of their errors are not in the sources; the ones
  below only name the tag that was expected.  Taking the top of an empty vector has no defined result.
\<close>

definition Push :: "Value \<Rightarrow> Interp \<Rightarrow> unit vm" where
  "Push v s = Done () (s\<lparr>vm_stack := vm_stack s @ [v]\<rparr>)"

definition Pop :: "Interp \<Rightarrow> Value vm" where
  "Pop s =
     (if vm_stack s = [] then Raised Undefined s
      else Done (last (vm_stack s)) (s\<lparr>vm_stack := butlast (vm_stack s)\<rparr>))"

definition PopInt :: "Interp \<Rightarrow> (64 word) vm" where
  "PopInt s =
     vmThen (Pop s) (\<lambda>v s1.
       case v of V_INT i \<Rightarrow> Done i s1 | _ \<Rightarrow> Raised (RuntimeError ''not an integer'') s1)"

definition PopBool :: "Interp \<Rightarrow> bool vm" where
  "PopBool s =
     vmThen (Pop s) (\<lambda>v s1.
       case v of V_BOOL b \<Rightarrow> Done b s1 | _ \<Rightarrow> Raised (RuntimeError ''not a boolean'') s1)"

definition PopAddr :: "Interp \<Rightarrow> (64 word) vm" where
  "PopAddr s =
     vmThen (Pop s) (\<lambda>v s1.
       case v of V_ADDR a \<Rightarrow> Done a s1 | _ \<Rightarrow> Raised (RuntimeError ''not an address'') s1)"

definition PeekInt :: "Interp \<Rightarrow> (64 word) vm" where
  "PeekInt s =
     (if vm_stack s = [] then Raised Undefined s
      else case last (vm_stack s) of
             V_INT i \<Rightarrow> Done i s
           | _ \<Rightarrow> Raised (RuntimeError ''not an integer'') s)"

definition PeekBool :: "Interp \<Rightarrow> bool vm" where
  "PeekBool s =
     (if vm_stack s = [] then Raised Undefined s
      else case last (vm_stack s) of
             V_BOOL b \<Rightarrow> Done b s
           | _ \<Rightarrow> Raised (RuntimeError ''not a boolean'') s)"

text \<open>
  \<open>stack_.resize(stack_.size() - k)\<close> with \<open>k\<close> an \<open>unsigned\<close>: the difference is computed
  in \<open>size_t\<close>.  With \<open>k\<close> above the size it wraps to at least \<open>2 ^ 64 - 2 ^ 32\<close> elements,
  more than a vector can hold, and \<open>resize\<close> throws \<open>std::length_error\<close>.
\<close>

definition resize_less :: "32 word \<Rightarrow> Interp \<Rightarrow> unit vm" where
  "resize_less k s =
     (if unat k \<le> length (vm_stack s)
      then Done () (s\<lparr>vm_stack := take (length (vm_stack s) - unat k) (vm_stack s)\<rparr>)
      else Raised LengthError s)"

text \<open>Modelled from the spec: the conversion of a value to \<open>bool\<close> that \<open>JUMP_FALSE\<close> applies
  to the condition it pops (interp.h is not under src/).  A boolean is its own truth
  value; an integer is true when it is not zero; the other kinds are true.\<close>

fun truthy :: "Value \<Rightarrow> bool" where
  "truthy (V_BOOL b) = b"
| "truthy (V_INT i) = (i \<noteq> 0)"
| "truthy _ = True"

subsection \<open>The primitives (runtime.cpp)\<close>

text \<open>\<open>std::cout << v\<close> for an \<open>int64_t\<close>.\<close>

definition show_int64 :: "64 word \<Rightarrow> string" where
  "show_int64 v = (if sint v < 0 then CHR ''-'' # show_nat (nat (- sint v)) else show_nat (nat (sint v)))"

definition write_cout :: "string \<Rightarrow> Interp \<Rightarrow> Interp" where
  "write_cout str s = s\<lparr>vm_cout := vm_cout s @ str\<rparr>"

definition run_PrintInt :: "Interp \<Rightarrow> unit vm" where
  "run_PrintInt interp =
     vmThen (PeekInt interp) (\<lambda>v s1.
     Push (V_INT v) (write_cout (show_int64 v) s1))"

definition run_PrintBool :: "Interp \<Rightarrow> unit vm" where
  "run_PrintBool interp =
     vmThen (PeekBool interp) (\<lambda>v s1.
     Push (V_BOOL v) (write_cout (if v then ''true'' else ''false'') s1))"

text \<open>\<open>std::cin >> val\<close> takes the next integer of the input; when there is none the
  extraction fails and stores 0.\<close>

definition run_ReadInt :: "Interp \<Rightarrow> unit vm" where
  "run_ReadInt interp =
     (case vm_cin interp of
        [] \<Rightarrow> Push (V_INT 0) interp
      | val # rest \<Rightarrow> Push (V_INT val) (interp\<lparr>vm_cin := rest\<rparr>))"

fun invoke :: "RuntimeFn \<Rightarrow> Interp \<Rightarrow> unit vm" where
  "invoke PrintInt interp = run_PrintInt interp"
| "invoke ReadInt interp = run_ReadInt interp"
| "invoke PrintBool interp = run_PrintBool interp"

subsection \<open>\<open>Interp::Run\<close>\<close>

text \<open>One turn of the loop of \<open>Run\<close>: \<open>Continue\<close> for \<open>continue\<close>, \<open>Return\<close> for the \<open>return\<close>
  of \<open>STOP\<close>.\<close>

datatype control = Continue | Return

definition continue :: "unit vm \<Rightarrow> control vm" where
  "continue r = vmThen r (\<lambda>_ s. Done Continue s)"

text \<open>The two operands of a binary instruction: the right one is popped first.\<close>

definition binary_int :: "(64 word \<Rightarrow> 64 word \<Rightarrow> Interp \<Rightarrow> unit vm) \<Rightarrow> Interp \<Rightarrow> control vm" where
  "binary_int f s =
     vmThen (PopInt s) (\<lambda>rhs s1.
     vmThen (PopInt s1) (\<lambda>lhs s2.
     continue (f lhs rhs s2)))"

text \<open>
  \<open>lhs / rhs\<close> and \<open>lhs % rhs\<close> on \<open>int64_t\<close> truncate towards zero.  A zero divisor, and
  the quotient of the least integer by -1, have no defined result.  The sum, difference,
  product and negation are taken modulo \<open>2 ^ 64\<close>, as the machine computes them.
\<close>

definition quotient :: "int \<Rightarrow> int \<Rightarrow> int" where
  "quotient lhs rhs =
     (if (lhs < 0) = (rhs < 0) then \<bar>lhs\<bar> div \<bar>rhs\<bar> else - (\<bar>lhs\<bar> div \<bar>rhs\<bar>))"

definition remainder :: "int \<Rightarrow> int \<Rightarrow> int" where
  "remainder lhs rhs = lhs - rhs * quotient lhs rhs"

definition division_defined :: "64 word \<Rightarrow> 64 word \<Rightarrow> bool" where
  "division_defined lhs rhs = (rhs \<noteq> 0 \<and> \<not> (sint lhs = - (2 ^ 63) \<and> sint rhs = - 1))"

definition step :: "Program \<Rightarrow> Interp \<Rightarrow> control vm" where
  "step prog s0 =
     vmThen (Read_Opcode prog s0) (\<lambda>op s.
       case op of
         OP_PUSH_FUNC \<Rightarrow>
           vmThen (Read_size_t prog s) (\<lambda>a s1. continue (Push (V_ADDR a) s1))
       | OP_PUSH_PROTO \<Rightarrow>
           vmThen (Read_RuntimeFn prog s) (\<lambda>f s1. continue (Push (V_PROTO f) s1))
       | OP_PEEK \<Rightarrow>
           vmThen (Read_unsigned prog s) (\<lambda>idx s1.
             if unat idx < length (vm_stack s1)
             then continue (Push (rev (vm_stack s1) ! unat idx) s1)
             else Raised Undefined s1)
       | OP_POP \<Rightarrow>
           vmThen (Pop s) (\<lambda>_ s1. Done Continue s1)
       | OP_CALL \<Rightarrow>
           vmThen (Pop s) (\<lambda>callee s1.
             case callee of
               V_PROTO f \<Rightarrow> continue (invoke f s1)
             | V_ADDR a \<Rightarrow>
                 vmThen (Push (V_ADDR (vm_pc s1)) s1) (\<lambda>_ s2. Done Continue (s2\<lparr>vm_pc := a\<rparr>))
             | V_INT _ \<Rightarrow> Raised (RuntimeError ''cannot call integer'') s1
             | V_BOOL _ \<Rightarrow> Raised (RuntimeError ''cannot call boolean'') s1
             | V_STRING _ \<Rightarrow> Raised (RuntimeError ''cannot call string'') s1)
       | OP_ADD \<Rightarrow> binary_int (\<lambda>lhs rhs. Push (V_INT (lhs + rhs))) s
       | OP_SUB \<Rightarrow> binary_int (\<lambda>lhs rhs. Push (V_INT (lhs - rhs))) s
       | OP_MUL \<Rightarrow> binary_int (\<lambda>lhs rhs. Push (V_INT (lhs * rhs))) s
       | OP_DIV \<Rightarrow>
           binary_int (\<lambda>lhs rhs s1.
             if division_defined lhs rhs
             then Push (V_INT (word_of_int (quotient (sint lhs) (sint rhs)))) s1
             else Raised Undefined s1) s
       | OP_MOD \<Rightarrow>
           binary_int (\<lambda>lhs rhs s1.
             if division_defined lhs rhs
             then Push (V_INT (word_of_int (remainder (sint lhs) (sint rhs)))) s1
             else Raised Undefined s1) s
       | OP_EQ \<Rightarrow> binary_int (\<lambda>lhs rhs. Push (V_BOOL (lhs = rhs))) s
       | OP_NEQ \<Rightarrow> binary_int (\<lambda>lhs rhs. Push (V_BOOL (lhs \<noteq> rhs))) s
       | OP_LEQ \<Rightarrow> binary_int (\<lambda>lhs rhs. Push (V_BOOL (sint lhs \<le> sint rhs))) s
       | OP_GREQ \<Rightarrow> binary_int (\<lambda>lhs rhs. Push (V_BOOL (sint lhs \<ge> sint rhs))) s
       | OP_LE \<Rightarrow> binary_int (\<lambda>lhs rhs. Push (V_BOOL (sint lhs < sint rhs))) s
       | OP_GR \<Rightarrow> binary_int (\<lambda>lhs rhs. Push (V_BOOL (sint lhs > sint rhs))) s
       | OP_NEG \<Rightarrow>
           vmThen (PopInt s) (\<lambda>opr s1. continue (Push (V_INT (- opr)) s1))
       | OP_NOT \<Rightarrow>
           vmThen (PopBool s) (\<lambda>opr s1. continue (Push (V_BOOL (\<not> opr)) s1))
       | OP_RET \<Rightarrow>
           vmThen (Read_unsigned prog s) (\<lambda>depth s1.
           vmThen (Read_unsigned prog s1) (\<lambda>nargs s2.
           vmThen (Pop s2) (\<lambda>v s3.
           vmThen (resize_less depth s3) (\<lambda>_ s4.
           vmThen (PopAddr s4) (\<lambda>a s5.
           vmThen (resize_less nargs (s5\<lparr>vm_pc := a\<rparr>)) (\<lambda>_ s6.
           continue (Push v s6)))))))
       | OP_JUMP_FALSE \<Rightarrow>
           vmThen (Pop s) (\<lambda>cond s1.
           vmThen (Read_size_t prog s1) (\<lambda>addr s2.
             if \<not> truthy cond then Done Continue (s2\<lparr>vm_pc := addr\<rparr>)
             else Done Continue s2))
       | OP_JUMP \<Rightarrow>
           vmThen (Read_size_t prog s) (\<lambda>addr s1. Done Continue (s1\<lparr>vm_pc := addr\<rparr>))
       | OP_PUSH_INT \<Rightarrow>
           vmThen (Read_int64 prog s) (\<lambda>val s1. continue (Push (V_INT val) s1))
       | OP_PUSH_BOOL \<Rightarrow>
           vmThen (Read_bool prog s) (\<lambda>val s1. continue (Push (V_BOOL val) s1))
       | OP_PUSH_STRING \<Rightarrow> Raised (LogicError ''Not yet implemented'') s
       | OP_STOP \<Rightarrow> Done Return s)"

text \<open>\<open>Run\<close>: the loop \<open>for (;;)\<close>, which ends at \<open>STOP\<close> or at an exception.  It need not
  end, so the model counts the turns: \<open>None\<close> when \<open>n\<close> turns were not enough.\<close>

fun Run :: "Program \<Rightarrow> nat \<Rightarrow> Interp \<Rightarrow> (unit vm) option" where
  "Run prog 0 s = None"
| "Run prog (Suc n) s =
     (case step prog s of
        Done Continue s1 \<Rightarrow> Run prog n s1
      | Done Return s1 \<Rightarrow> Some (Done () s1)
      | Raised e s1 \<Rightarrow> Some (Raised e s1))"

section \<open>Running the parser on a source text\<close>

text \<open>
  The driver (not under src/) builds a \<open>Lexer\<close> on a file and a \<open>Parser\<close> on that lexer.
  \<open>on_source parse name contents\<close> runs a parsing function on the file \<open>name\<close> holding
  \<open>contents\<close>; an error of the constructor of the lexer is thrown as it is.  \<open>node_of\<close>
  and \<open>state_of\<close> keep the node and the state of a result.
\<close>

definition on_source :: "(Lexer \<Rightarrow> 'a result) \<Rightarrow> string \<Rightarrow> string \<Rightarrow> 'a result" where
  "on_source parse name contents =
     (case Lexer_new name contents of Inl e \<Rightarrow> Throw e | Inr s \<Rightarrow> parse s)"

fun node_of :: "'a result \<Rightarrow> 'a option" where
  "node_of (Ok a s) = Some a"
| "node_of _ = None"

fun state_of :: "'a result \<Rightarrow> Lexer option" where
  "state_of (Ok a s) = Some s"
| "state_of _ = None"

text \<open>The first token of a source text: the current token of a new lexer.\<close>

definition first_token :: "string \<Rightarrow> string \<Rightarrow> error + Token" where
  "first_token name contents =
     (case Lexer_new name contents of Inl e \<Rightarrow> Inl e | Inr s \<Rightarrow> Inr (GetToken s))"

section \<open>Example programs for the virtual machine\<close>

text \<open>A program holding one instruction at offset 0, and a machine about to run it.\<close>

definition call_program :: Program where
  "call_program = (\<lambda>a. if a = 0 then Some (C_Opcode OP_CALL) else None)"

definition ret_program :: "32 word \<Rightarrow> 32 word \<Rightarrow> Program" where
  "ret_program depth nargs =
     (\<lambda>a. if a = 0 then Some (C_Opcode OP_RET)
          else if a = 1 then Some (C_unsigned depth)
          else if a = 5 then Some (C_unsigned nargs)
          else None)"

definition machine :: "Value list \<Rightarrow> Interp" where
  "machine st = \<lparr>vm_pc = 0, vm_stack = st, vm_cin = [], vm_cout = []\<rparr>"

text \<open>
  Two programs laid out cell by cell.  The first pushes the integer 5 and calls it.  The
  second is the factorial function of the specification,
  \<open>if (n <= 1) return 1; else return n * fact(n - 1);\<close>, assembled by hand at offset 20
  with the calling convention that \<open>RET\<close> assumes (the caller pushes the argument and the
  function, \<open>CALL\<close> pushes the return address), and called with 5 from offset 0.
\<close>

definition cells :: "(64 word \<times> Cell) list \<Rightarrow> Program" where
  "cells cs = map_of cs"

definition call_integer_program :: Program where
  "call_integer_program = cells [(0, C_Opcode OP_PUSH_INT), (1, C_int64 5), (9, C_Opcode OP_CALL)]"

definition fact_program :: Program where
  "fact_program = cells
     [(0, C_Opcode OP_PUSH_INT), (1, C_int64 5),
      (9, C_Opcode OP_PUSH_FUNC), (10, C_size_t 20),
      (18, C_Opcode OP_CALL),
      (19, C_Opcode OP_STOP),
      (20, C_Opcode OP_PEEK), (21, C_unsigned 1),
      (25, C_Opcode OP_PUSH_INT), (26, C_int64 1),
      (34, C_Opcode OP_LEQ),
      (35, C_Opcode OP_JUMP_FALSE), (36, C_size_t 62),
      (44, C_Opcode OP_PUSH_INT), (45, C_int64 1),
      (53, C_Opcode OP_RET), (54, C_unsigned 0), (58, C_unsigned 1),
      (62, C_Opcode OP_PEEK), (63, C_unsigned 1),
      (67, C_Opcode OP_PEEK), (68, C_unsigned 2),
      (72, C_Opcode OP_PUSH_INT), (73, C_int64 1),
      (81, C_Opcode OP_SUB),
      (82, C_Opcode OP_PUSH_FUNC), (83, C_size_t 20),
      (91, C_Opcode OP_CALL),
      (92, C_Opcode OP_MUL),
      (93, C_Opcode OP_RET), (94, C_unsigned 0), (98, C_unsigned 1)]"

section \<open>Facts used by several results\<close>

lemmas lexer_eval =
  Lexer_new_def Lexer_open_def Next_def NextToken_def NextChar_def PeekChar_def SkipSpace.simps is_get_def
  isspace_def isdigit_def isalpha_def IsIdentStart_def IsIdentLetter_def IdentLoop.simps
  DigitLoop.simps StringLoop.simps GetLocation_def keyword_or_ident_def emit_def
  Token_Ident_def Token_String_def Token_Integer_def mkToken_def Error_def Let_def

lemmas parser_eval =
  on_source_def ParseEqualityExpr_def ParseComparisonExpr_def ParseAddSubExpr_def
  ParseMulDivExpr_def ParseCallExpr_def ParseTermExpr_def ParseArgumentList_def
  ParseReturnStmt_def ParseWhileStmt_def ParseIfStmt_def ParseVarDeclStmt_def
  ParseBlockStmt_def andThen_def Advance_def Check_def Expect_def Current_def GetToken_def
  Is_def GetIdent_def GetString_def GetInteger_def term_error_def Parser_Error_def
  Token_Print_def

lemma show_int64_7: "show_int64 7 = ''7''"
  by code_simp

lemma invoke_keeps_pc: "invoke f s = Done u s1 \<Longrightarrow> vm_pc s1 = vm_pc s"
  by (cases f)
     (auto simp: run_PrintInt_def run_PrintBool_def run_ReadInt_def PeekInt_def PeekBool_def
        vmThen_def Push_def write_cout_def split: if_splits Value.splits list.splits)

lemma ParseUnaryExpr_never_returns:
  "tk_kind (Current s) = T_MINUS \<or> tk_kind (Current s) = T_BANG
   \<Longrightarrow> ParseUnaryExpr pe n s = OutOfFuel"
  by (induction n) (auto simp: andThen_def)

lemma ParseExpr_never_returns:
  assumes "tk_kind (Current s) = T_MINUS \<or> tk_kind (Current s) = T_BANG"
  shows "ParseExpr n s = OutOfFuel"
proof (cases n)
  case 0
  then show ?thesis by simp
next
  case (Suc m)
  then show ?thesis
    using ParseUnaryExpr_never_returns [OF assms]
    by (simp add: ParseEqualityExpr_def ParseComparisonExpr_def ParseAddSubExpr_def
        ParseMulDivExpr_def andThen_def)
qed

lemma BlockLoop_stops:
  "BlockLoop ps n body s = Ok body' s' \<Longrightarrow> \<not> Is (Current s') T_RBRACE
   \<Longrightarrow> \<not> Is (Current s') T_SEMI \<and> body' \<noteq> []"
proof (induction n arbitrary: body s)
  case 0
  then show ?case by simp
next
  case (Suc n)
  then show ?case
    by (auto simp: andThen_def split: result.splits if_splits)
qed

lemma lex_minus_x:
  "Lexer_new ''f'' ''-x\<newline>'' =
     Inr \<lparr>lx_name = ''f'', is_rest = ''\<newline>'', is_eof = False, lx_chr = CHR ''x'',
          lx_tk = \<lparr>tk_loc = \<lparr>Name = ''f'', Line = 1, Column = 2\<rparr>, tk_kind = T_MINUS,
                   tk_value = NoValue\<rparr>,
          lx_lineNo = 1, lx_charNo = 3\<rparr>"
  by (simp add: lexer_eval)

lemma round_to_double_example:
  "round_to_double 9007199254740993 = 9007199254740992"
  "round_to_double 18446744073709551616 = 18446744073709551616"
  by (simp_all add: round_to_double_def bit_length.simps Let_def)

section \<open>The call protocol of the virtual machine\<close>

text \<open>
  C4.  \<open>RET depth nargs\<close> on a stack that holds, from the bottom, the caller's values
  \<open>below\<close>, the \<open>nargs\<close> arguments, the return address \<open>ra\<close>, the \<open>depth\<close> locals of the
  callee and the return value \<open>v\<close>: the step continues at \<open>ra\<close> with the stack
  \<open>below @ [v]\<close>, which is \<open>depth + nargs + 1\<close> slots lower than before.  The operands
  \<open>depth\<close> and \<open>nargs\<close> follow the opcode at the offsets 1 and 5.
\<close>

theorem RET_restores_caller:
  assumes op: "prog (vm_pc s) = Some (C_Opcode OP_RET)"
    and d: "prog (vm_pc s + 1) = Some (C_unsigned depth)"
    and n: "prog (vm_pc s + 5) = Some (C_unsigned nargs)"
    and st: "vm_stack s = below @ args @ [V_ADDR ra] @ locals @ [v]"
    and la: "length args = unat nargs"
    and ll: "length locals = unat depth"
  shows "step prog s = Done Continue (s\<lparr>vm_pc := ra, vm_stack := below @ [v]\<rparr>)
         \<and> length (vm_stack s) = length (below @ [v]) + (unat depth + unat nargs + 1)"
proof -
  have "step prog s = Done Continue (s\<lparr>vm_pc := ra, vm_stack := below @ [v]\<rparr>)"
    by (simp add: step_def Read_Opcode_def Read_unsigned_def skip_def vmThen_def op d n add.assoc
        Pop_def st resize_less_def PopAddr_def la [symmetric] ll [symmetric] continue_def Push_def
        butlast_append)
  moreover have "length (vm_stack s) = length (below @ [v]) + (unat depth + unat nargs + 1)"
    by (simp add: st la ll)
  ultimately show ?thesis by simp
qed

theorem RET_restores_caller_witness:
  "step (ret_program 1 2) (machine [V_INT 9, V_INT 1, V_INT 2, V_ADDR 77, V_INT 5, V_INT 120])
     = Done Continue \<lparr>vm_pc = 77, vm_stack = [V_INT 9, V_INT 120], vm_cin = [], vm_cout = []\<rparr>"
proof -
  let ?s = "machine [V_INT 9, V_INT 1, V_INT 2, V_ADDR 77, V_INT 5, V_INT 120]"
  have op: "ret_program 1 2 (vm_pc ?s) = Some (C_Opcode OP_RET)"
    and d: "ret_program 1 2 (vm_pc ?s + 1) = Some (C_unsigned 1)"
    and n: "ret_program 1 2 (vm_pc ?s + 5) = Some (C_unsigned 2)"
    by (simp_all add: ret_program_def machine_def)
  have st: "vm_stack ?s = [V_INT 9] @ [V_INT 1, V_INT 2] @ [V_ADDR 77] @ [V_INT 5] @ [V_INT 120]"
    by (simp add: machine_def)
  have la: "length [V_INT 1, V_INT 2] = unat (2 :: 32 word)"
    and ll: "length [V_INT 5] = unat (1 :: 32 word)"
    by simp_all
  show ?thesis
    using RET_restores_caller [OF op d n st la ll] by (simp add: machine_def)
qed

text \<open>
  C5.  \<open>CALL\<close> pops the callee.  An integer, a boolean or a string raises a
  \<open>RuntimeError\<close>, and the state that the exception leaves has the stack below the callee
  as it was.  A code address pushes the current \<open>pc_\<close>, which is already past the
  opcode, and jumps.  A primitive is invoked on the popped stack, and when it returns
  the loop continues at the instruction after the \<open>CALL\<close>.
\<close>

theorem CALL_dispatch:
  assumes op: "prog (vm_pc s) = Some (C_Opcode OP_CALL)"
    and st: "vm_stack s = below @ [callee]"
  shows "step prog s =
           (case callee of
              V_INT i \<Rightarrow> Raised (RuntimeError ''cannot call integer'')
                                (s\<lparr>vm_pc := vm_pc s + 1, vm_stack := below\<rparr>)
            | V_BOOL b \<Rightarrow> Raised (RuntimeError ''cannot call boolean'')
                                 (s\<lparr>vm_pc := vm_pc s + 1, vm_stack := below\<rparr>)
            | V_STRING str \<Rightarrow> Raised (RuntimeError ''cannot call string'')
                                     (s\<lparr>vm_pc := vm_pc s + 1, vm_stack := below\<rparr>)
            | V_ADDR a \<Rightarrow> Done Continue
                                 (s\<lparr>vm_pc := a, vm_stack := below @ [V_ADDR (vm_pc s + 1)]\<rparr>)
            | V_PROTO f \<Rightarrow> continue (invoke f (s\<lparr>vm_pc := vm_pc s + 1, vm_stack := below\<rparr>)))
         \<and> (\<forall>f s1. callee = V_PROTO f
               \<and> invoke f (s\<lparr>vm_pc := vm_pc s + 1, vm_stack := below\<rparr>) = Done () s1
               \<longrightarrow> step prog s = Done Continue s1 \<and> vm_pc s1 = vm_pc s + 1)"
proof -
  let ?s1 = "s\<lparr>vm_pc := vm_pc s + 1, vm_stack := below\<rparr>"
  have eq: "step prog s =
           (case callee of
              V_INT i \<Rightarrow> Raised (RuntimeError ''cannot call integer'') ?s1
            | V_BOOL b \<Rightarrow> Raised (RuntimeError ''cannot call boolean'') ?s1
            | V_STRING str \<Rightarrow> Raised (RuntimeError ''cannot call string'') ?s1
            | V_ADDR a \<Rightarrow> Done Continue
                                 (s\<lparr>vm_pc := a, vm_stack := below @ [V_ADDR (vm_pc s + 1)]\<rparr>)
            | V_PROTO f \<Rightarrow> continue (invoke f ?s1))"
    by (cases callee)
       (simp_all add: step_def Read_Opcode_def op skip_def vmThen_def Pop_def st Push_def)
  have "step prog s = Done Continue s1 \<and> vm_pc s1 = vm_pc s + 1"
    if "callee = V_PROTO f" and "invoke f ?s1 = Done () s1" for f s1
    using that eq invoke_keeps_pc [of f ?s1 "()" s1]
    by (simp add: continue_def vmThen_def)
  with eq show ?thesis by blast
qed

theorem CALL_dispatch_witness:
  "step call_program (machine [V_INT 7, V_INT 5])
     = Raised (RuntimeError ''cannot call integer'')
         \<lparr>vm_pc = 1, vm_stack = [V_INT 7], vm_cin = [], vm_cout = []\<rparr>
   \<and> step call_program (machine [V_INT 7, V_BOOL True])
     = Raised (RuntimeError ''cannot call boolean'')
         \<lparr>vm_pc = 1, vm_stack = [V_INT 7], vm_cin = [], vm_cout = []\<rparr>
   \<and> step call_program (machine [V_INT 7, V_STRING ''s''])
     = Raised (RuntimeError ''cannot call string'')
         \<lparr>vm_pc = 1, vm_stack = [V_INT 7], vm_cin = [], vm_cout = []\<rparr>
   \<and> step call_program (machine [V_INT 7, V_ADDR 40])
     = Done Continue \<lparr>vm_pc = 40, vm_stack = [V_INT 7, V_ADDR 1], vm_cin = [], vm_cout = []\<rparr>
   \<and> step call_program (machine [V_INT 7, V_PROTO PrintInt])
     = Done Continue \<lparr>vm_pc = 1, vm_stack = [V_INT 7, V_INT 7], vm_cin = [], vm_cout = ''7''\<rparr>"
proof -
  have op: "call_program (vm_pc (machine st)) = Some (C_Opcode OP_CALL)" for st
    by (simp add: call_program_def machine_def)
  have st: "vm_stack (machine [V_INT 7, callee]) = [V_INT 7] @ [callee]" for callee
    by (simp add: machine_def)
  show ?thesis
    using CALL_dispatch [of call_program "machine [V_INT 7, V_INT 5]" "[V_INT 7]" "V_INT 5", OF op st]
      CALL_dispatch [of call_program "machine [V_INT 7, V_BOOL True]" "[V_INT 7]" "V_BOOL True",
        OF op st]
      CALL_dispatch [of call_program "machine [V_INT 7, V_STRING ''s'']" "[V_INT 7]" "V_STRING ''s''",
        OF op st]
      CALL_dispatch [of call_program "machine [V_INT 7, V_ADDR 40]" "[V_INT 7]" "V_ADDR 40",
        OF op st]
      CALL_dispatch [of call_program "machine [V_INT 7, V_PROTO PrintInt]" "[V_INT 7]"
        "V_PROTO PrintInt", OF op st]
    by (simp add: machine_def continue_def vmThen_def run_PrintInt_def PeekInt_def Push_def
        write_cout_def show_int64_7)
qed

text \<open>
  C10.  \<open>print_int\<close> is the primitive \<open>PrintInt\<close>.  With an integer \<open>i\<close> on top of the stack
  it writes \<open>i\<close> and pushes \<open>i\<close> again without popping: the stack is one slot deeper, ends
  in two copies of \<open>i\<close>, and is unchanged below.  \<open>print_bool\<close> does the same with a
  boolean.
\<close>

theorem PrintInt_duplicates_top:
  "(vm_stack s = below @ [V_INT i] \<longrightarrow>
      kRuntimeFns ''print_int'' = Some PrintInt \<and>
      invoke PrintInt s = Done () (s\<lparr>vm_stack := below @ [V_INT i, V_INT i],
                                    vm_cout := vm_cout s @ show_int64 i\<rparr>))
   \<and> (vm_stack s = below @ [V_BOOL b] \<longrightarrow>
      kRuntimeFns ''print_bool'' = Some PrintBool \<and>
      invoke PrintBool s = Done () (s\<lparr>vm_stack := below @ [V_BOOL b, V_BOOL b],
                                     vm_cout := vm_cout s @ (if b then ''true'' else ''false'')\<rparr>))"
  by (simp add: kRuntimeFns_def run_PrintInt_def run_PrintBool_def PeekInt_def PeekBool_def
      vmThen_def Push_def write_cout_def)

theorem PrintInt_duplicates_top_witness:
  "invoke PrintInt (machine [V_BOOL False, V_INT 7])
     = Done () \<lparr>vm_pc = 0, vm_stack = [V_BOOL False, V_INT 7, V_INT 7], vm_cin = [], vm_cout = ''7''\<rparr>
   \<and> invoke PrintBool (machine [V_INT 3, V_BOOL True])
     = Done () \<lparr>vm_pc = 0, vm_stack = [V_INT 3, V_BOOL True, V_BOOL True], vm_cin = [],
                vm_cout = ''true''\<rparr>"
proof -
  have a: "vm_stack (machine [V_BOOL False, V_INT 7]) = [V_BOOL False] @ [V_INT 7]"
    and b: "vm_stack (machine [V_INT 3, V_BOOL True]) = [V_INT 3] @ [V_BOOL True]"
    by (simp_all add: machine_def)
  from a b show ?thesis
    using PrintInt_duplicates_top [of "machine [V_BOOL False, V_INT 7]" "[V_BOOL False]" 7 True]
      PrintInt_duplicates_top [of "machine [V_INT 3, V_BOOL True]" "[V_INT 3]" 0 True]
    by (simp add: machine_def show_int64_7)
qed

section \<open>The lexer and the parser on source texts\<close>

text \<open>
  C1.  The source text \<open>x < y\<close> is not parsed: after the identifier the lexer meets \<open><\<close>,
  which no case of \<open>Lexer::Next\<close> handles, and throws the lexical error
  \<open>unknown character '<'\<close>.  The same happens for \<open><=\<close>, \<open>>\<close> and \<open>>=\<close>.  The fuel is any
  number from 2 on.
\<close>

theorem relational_operator_is_lexical_error:
  "on_source (ParseExpr (Suc (Suc n))) ''f'' ''x < y\<newline>''
     = Throw (LexerError \<lparr>Name = ''f'', Line = 1, Column = 4\<rparr>
               (''unknown character '' @ [CHR 0x27, CHR ''<'', CHR 0x27]))
   \<and> on_source (ParseExpr (Suc (Suc n))) ''f'' ''x <= y\<newline>''
     = Throw (LexerError \<lparr>Name = ''f'', Line = 1, Column = 4\<rparr>
               (''unknown character '' @ [CHR 0x27, CHR ''<'', CHR 0x27]))
   \<and> on_source (ParseExpr (Suc (Suc n))) ''f'' ''x > y\<newline>''
     = Throw (LexerError \<lparr>Name = ''f'', Line = 1, Column = 4\<rparr>
               (''unknown character '' @ [CHR 0x27, CHR ''>'', CHR 0x27]))
   \<and> on_source (ParseExpr (Suc (Suc n))) ''f'' ''x >= y\<newline>''
     = Throw (LexerError \<lparr>Name = ''f'', Line = 1, Column = 4\<rparr>
               (''unknown character '' @ [CHR 0x27, CHR ''>'', CHR 0x27]))"
  by (simp add: lexer_eval parser_eval)

text \<open>
  C2.  On the source text \<open>-x\<close> the first token is MINUS, and neither \<open>ParseUnaryExpr\<close>
  nor \<open>ParseExpr\<close> returns, whatever the fuel \<open>n\<close>: \<open>ParseUnaryExpr\<close> calls itself with
  the lexer still at the MINUS token.
\<close>

theorem prefix_minus_never_returns:
  "first_token ''f'' ''-x\<newline>''
     = Inr \<lparr>tk_loc = \<lparr>Name = ''f'', Line = 1, Column = 2\<rparr>, tk_kind = T_MINUS,
             tk_value = NoValue\<rparr>
   \<and> on_source (ParseUnaryExpr pe n) ''f'' ''-x\<newline>'' = OutOfFuel
   \<and> on_source (ParseExpr n) ''f'' ''-x\<newline>'' = OutOfFuel"
  by (simp add: first_token_def on_source_def lex_minus_x GetToken_def
      ParseUnaryExpr_never_returns ParseExpr_never_returns Current_def)

text \<open>
  C3.  The words \<open>true\<close> and \<open>false\<close> are lexed as IDENT tokens, the keyword list of
  \<open>Lexer::Next\<close> does not hold them, and \<open>ParseTermExpr\<close> turns them into references to
  variables of these names, not into boolean literals.
\<close>

theorem true_false_are_identifiers:
  "first_token ''f'' ''true\<newline>''
     = Inr \<lparr>tk_loc = \<lparr>Name = ''f'', Line = 1, Column = 2\<rparr>, tk_kind = T_IDENT,
             tk_value = StringValue ''true''\<rparr>
   \<and> first_token ''f'' ''false\<newline>''
     = Inr \<lparr>tk_loc = \<lparr>Name = ''f'', Line = 1, Column = 2\<rparr>, tk_kind = T_IDENT,
             tk_value = StringValue ''false''\<rparr>
   \<and> node_of (on_source (ParseTermExpr pe) ''f'' ''true\<newline>'') = Some (RefExpr ''true'')
   \<and> node_of (on_source (ParseTermExpr pe) ''f'' ''false\<newline>'') = Some (RefExpr ''false'')"
  by (simp add: first_token_def lexer_eval parser_eval)

text \<open>
  C6.  The literal \<open>9007199254740993\<close>, which is \<open>2 ^ 53 + 1\<close> and fits in 64 bits, is lexed
  as the integer token \<open>9007199254740992\<close>: the digits go through a double.  The literal
  \<open>18446744073709551616\<close>, which is \<open>2 ^ 64\<close> and does not fit, raises no lexical error:
  \<open>stod\<close> accepts it, and the conversion of its double to \<open>uint64_t\<close> is undefined.
\<close>

theorem integer_literal_rounded:
  "first_token ''f'' ''9007199254740993\<newline>''
     = Inr \<lparr>tk_loc = \<lparr>Name = ''f'', Line = 1, Column = 2\<rparr>, tk_kind = T_INT,
             tk_value = IntValue 9007199254740992\<rparr>
   \<and> first_token ''f'' ''18446744073709551616\<newline>'' = Inl UndefinedConversion"
  by (simp add: first_token_def lexer_eval GetToken_def stod_def decimal_value_def
      round_to_double_example double_to_uint64_def)

text \<open>
  C7 as stated fails.  The statement \<open>if (a) b\<close> has no else clause; the node that
  \<open>ParseStmt\<close> builds for it holds the null pointer in its false-branch slot, and the
  accessor \<open>GetFalseBranchStmt\<close>, which dereferences the slot without a test, has no
  defined result on it.
\<close>

theorem if_without_else_counterexample:
  "node_of (on_source (ParseStmt 4) ''f'' ''if (a) b\<newline>'')
     = Some (IfStmt (RefExpr ''a'') (ExprStmt (RefExpr ''b'')) nullptr)
   \<and> GetFalseBranchStmt (IfStmt (RefExpr ''a'') (ExprStmt (RefExpr ''b'')) nullptr) = None"
  by (simp add: lexer_eval parser_eval eval_nat_numeral)

text \<open>
  C7, amended.  Take an if statement whose condition \<open>cond\<close> and true branch \<open>tstmt\<close> have
  been parsed, the lexer being at \<open>s7\<close> after the true branch.  When the token at \<open>s7\<close> is
  not \<open>else\<close>, the statement has no else clause, and \<open>ParseIfStmt\<close> returns the node whose
  false-branch slot is the null pointer.  When it is \<open>else\<close> and the statement \<open>fstmt\<close>
  follows, the slot points to \<open>fstmt\<close>, and \<open>GetFalseBranchStmt\<close> returns it.
\<close>

theorem if_else_slot:
  assumes "tk_kind (Current s) = T_IF"
    and "Expect T_LPAREN s = Ok lp s2"
    and "Advance s2 = Ok () s3"
    and "ParseExpr n s3 = Ok cond s4"
    and "tk_kind (Current s4) = T_RPAREN"
    and "Advance s4 = Ok () s6"
    and "ps s6 = Ok tstmt s7"
  shows "(\<not> Is (Current s7) T_ELSE
            \<longrightarrow> ParseIfStmt ps n s = Ok (IfStmt cond tstmt nullptr) s7)
       \<and> (Is (Current s7) T_ELSE \<and> Advance s7 = Ok () s8 \<and> ps s8 = Ok fstmt s9
            \<longrightarrow> ParseIfStmt ps n s = Ok (IfStmt cond tstmt (make_shared fstmt)) s9
              \<and> GetFalseBranchStmt (IfStmt cond tstmt (make_shared fstmt)) = Some fstmt)"
  using assms by (simp add: ParseIfStmt_def andThen_def Check_def)

theorem if_else_slot_witness:
  "node_of (ParseIfStmt (ParseStmt 3) 3 (projr (Lexer_new ''f'' ''if (a) b\<newline>'')))
     = Some (IfStmt (RefExpr ''a'') (ExprStmt (RefExpr ''b'')) nullptr)
   \<and> node_of (ParseIfStmt (ParseStmt 3) 3 (projr (Lexer_new ''f'' ''if (a) b else c\<newline>'')))
     = Some (IfStmt (RefExpr ''a'') (ExprStmt (RefExpr ''b'')) (make_shared (ExprStmt (RefExpr ''c''))))"
proof -
  note ev = lexer_eval parser_eval eval_nat_numeral
  have no_else: "node_of (ParseIfStmt (ParseStmt 3) 3 (projr (Lexer_new ''f'' ''if (a) b\<newline>'')))
     = Some (IfStmt (RefExpr ''a'') (ExprStmt (RefExpr ''b'')) nullptr)"
  proof -
    let ?s = "projr (Lexer_new ''f'' ''if (a) b\<newline>'')"
    let ?s2 = "the (state_of (Expect T_LPAREN ?s))"
    let ?s3 = "the (state_of (Advance ?s2))"
    let ?s4 = "the (state_of (ParseExpr 3 ?s3))"
    let ?s6 = "the (state_of (Advance ?s4))"
    let ?s7 = "the (state_of (ParseStmt 3 ?s6))"
    have h1: "tk_kind (Current ?s) = T_IF" by (simp add: ev)
    have h2: "Expect T_LPAREN ?s = Ok (Current ?s2) ?s2" by (simp add: ev)
    have h3: "Advance ?s2 = Ok () ?s3" by (simp add: ev)
    have h4: "ParseExpr 3 ?s3 = Ok (RefExpr ''a'') ?s4" by (simp add: ev)
    have h5: "tk_kind (Current ?s4) = T_RPAREN" by (simp add: ev)
    have h6: "Advance ?s4 = Ok () ?s6" by (simp add: ev)
    have h7: "ParseStmt 3 ?s6 = Ok (ExprStmt (RefExpr ''b'')) ?s7" by (simp add: ev)
    have h8: "\<not> Is (Current ?s7) T_ELSE" by (simp add: ev)
    from if_else_slot [where ps = "ParseStmt 3" and n = 3, OF h1 h2 h3 h4 h5 h6 h7] h8
    have "ParseIfStmt (ParseStmt 3) 3 ?s = Ok (IfStmt (RefExpr ''a'') (ExprStmt (RefExpr ''b'')) nullptr) ?s7"
      by blast
    then show ?thesis by (simp only: node_of.simps)
  qed
  have with_else: "node_of (ParseIfStmt (ParseStmt 3) 3 (projr (Lexer_new ''f'' ''if (a) b else c\<newline>'')))
     = Some (IfStmt (RefExpr ''a'') (ExprStmt (RefExpr ''b'')) (make_shared (ExprStmt (RefExpr ''c''))))"
  proof -
    let ?s = "projr (Lexer_new ''f'' ''if (a) b else c\<newline>'')"
    let ?s2 = "the (state_of (Expect T_LPAREN ?s))"
    let ?s3 = "the (state_of (Advance ?s2))"
    let ?s4 = "the (state_of (ParseExpr 3 ?s3))"
    let ?s6 = "the (state_of (Advance ?s4))"
    let ?s7 = "the (state_of (ParseStmt 3 ?s6))"
    let ?s8 = "the (state_of (Advance ?s7))"
    let ?s9 = "the (state_of (ParseStmt 3 ?s8))"
    have h1: "tk_kind (Current ?s) = T_IF" by (simp add: ev)
    have h2: "Expect T_LPAREN ?s = Ok (Current ?s2) ?s2" by (simp add: ev)
    have h3: "Advance ?s2 = Ok () ?s3" by (simp add: ev)
    have h4: "ParseExpr 3 ?s3 = Ok (RefExpr ''a'') ?s4" by (simp add: ev)
    have h5: "tk_kind (Current ?s4) = T_RPAREN" by (simp add: ev)
    have h6: "Advance ?s4 = Ok () ?s6" by (simp add: ev)
    have h7: "ParseStmt 3 ?s6 = Ok (ExprStmt (RefExpr ''b'')) ?s7" by (simp add: ev)
    have h8: "Is (Current ?s7) T_ELSE \<and> Advance ?s7 = Ok () ?s8
              \<and> ParseStmt 3 ?s8 = Ok (ExprStmt (RefExpr ''c'')) ?s9" by (simp add: ev)
    from if_else_slot [where ps = "ParseStmt 3" and n = 3, OF h1 h2 h3 h4 h5 h6 h7] h8
    have "ParseIfStmt (ParseStmt 3) 3 ?s
            = Ok (IfStmt (RefExpr ''a'') (ExprStmt (RefExpr ''b''))
                    (make_shared (ExprStmt (RefExpr ''c'')))) ?s9"
      by blast
    then show ?thesis by (simp only: node_of.simps)
  qed
  from no_else with_else show ?thesis by blast
qed

text \<open>
  C8 as stated fails.  On \<open>{ a; b c }\<close> no block is built whose statements end after
  \<open>b\<close>: \<open>ParseStmt\<close> throws a syntax error at \<open>c\<close>, where it expects the closing brace.
\<close>

theorem block_missing_semicolon_counterexample:
  "on_source (ParseStmt 4) ''f'' ''{ a; b c }\<newline>''
     = Throw (ParserError \<lparr>Name = ''f'', Line = 1, Column = 9\<rparr>
               ''unexpected IDENT(c), expecting }'')"
  by (simp add: lexer_eval parser_eval eval_nat_numeral)

text \<open>
  C8, amended.  A turn of the loop of \<open>ParseBlockStmt\<close> that parses a statement \<open>st\<close> and
  finds a token other than a semicolon after it ends the loop: \<open>st\<close> is the last statement
  collected, and the token is not consumed.  When the loop has ended at a token \<open>e\<close> that
  is not the closing brace, it has collected at least one statement, the token is not a
  semicolon, and \<open>ParseBlockStmt\<close> throws the syntax error that names the token and
  expects the closing brace: no block is built.  On \<open>{ a; b c }\<close> the loop collects \<open>a\<close>
  and \<open>b\<close> and stops at \<open>c\<close>.
\<close>

theorem block_requires_rbrace:
  "(Advance s = Ok () s1 \<and> \<not> Is (Current s1) T_RBRACE \<and> ps s1 = Ok st s2
      \<and> \<not> Is (Current s2) T_SEMI
      \<longrightarrow> BlockLoop ps (Suc n) body s = Ok (body @ [st]) s2)
   \<and> (tk_kind (Current b) = T_LBRACE \<and> BlockLoop ps m [] b = Ok stmts e
      \<and> \<not> Is (Current e) T_RBRACE
      \<longrightarrow> stmts \<noteq> [] \<and> \<not> Is (Current e) T_SEMI
        \<and> ParseBlockStmt ps m b =
            Throw (ParserError (tk_loc (Current e))
                     (''unexpected '' @ Token_Print (Current e) @ '', expecting }'')))"
proof (intro conjI impI)
  assume "Advance s = Ok () s1 \<and> \<not> Is (Current s1) T_RBRACE \<and> ps s1 = Ok st s2
      \<and> \<not> Is (Current s2) T_SEMI"
  then show "BlockLoop ps (Suc n) body s = Ok (body @ [st]) s2"
    by (simp add: andThen_def)
next
  assume a: "tk_kind (Current b) = T_LBRACE \<and> BlockLoop ps m [] b = Ok stmts e
      \<and> \<not> Is (Current e) T_RBRACE"
  then have "\<not> Is (Current e) T_SEMI \<and> stmts \<noteq> []"
    using BlockLoop_stops [of ps m "[]" b stmts e] by blast
  then show "stmts \<noteq> []" and "\<not> Is (Current e) T_SEMI"
    by simp_all
  from a show "ParseBlockStmt ps m b =
            Throw (ParserError (tk_loc (Current e))
                     (''unexpected '' @ Token_Print (Current e) @ '', expecting }''))"
    by (auto simp: ParseBlockStmt_def andThen_def Check_def Is_def Parser_Error_def Let_def)
qed

theorem block_requires_rbrace_witness:
  "node_of (BlockLoop (ParseStmt 3) 3 [] (projr (Lexer_new ''f'' ''{ a; b c }\<newline>'')))
     = Some [ExprStmt (RefExpr ''a''), ExprStmt (RefExpr ''b'')]
   \<and> ParseBlockStmt (ParseStmt 3) 3 (projr (Lexer_new ''f'' ''{ a; b c }\<newline>''))
     = Throw (ParserError \<lparr>Name = ''f'', Line = 1, Column = 9\<rparr> ''unexpected IDENT(c), expecting }'')"
proof -
  note ev = lexer_eval parser_eval eval_nat_numeral
  define ps where "ps = ParseStmt 3"
  define b where "b = projr (Lexer_new ''f'' ''{ a; b c }\<newline>'')"
  define t1 where "t1 = the (state_of (Advance b))"
  define s where "s = the (state_of (ps t1))"
  define s1 where "s1 = the (state_of (Advance s))"
  define s2 where "s2 = the (state_of (ps s1))"
  note states = s2_def s1_def s_def t1_def b_def ps_def
  have lb: "tk_kind (Current b) = T_LBRACE"
    unfolding states by (simp add: ev)
  have first: "Advance b = Ok () t1" "\<not> Is (Current t1) T_RBRACE"
    "ps t1 = Ok (ExprStmt (RefExpr ''a'')) s" "Is (Current s) T_SEMI"
    unfolding states by (simp_all add: ev)
  have turn: "Advance s = Ok () s1 \<and> \<not> Is (Current s1) T_RBRACE
      \<and> ps s1 = Ok (ExprStmt (RefExpr ''b'')) s2 \<and> \<not> Is (Current s2) T_SEMI"
    unfolding states by (simp add: ev)
  have tk: "Current s2 = \<lparr>tk_loc = \<lparr>Name = ''f'', Line = 1, Column = 9\<rparr>, tk_kind = T_IDENT,
                            tk_value = StringValue ''c''\<rparr>"
    unfolding states by (simp add: ev)
  have second: "BlockLoop ps (Suc (Suc 0)) [ExprStmt (RefExpr ''a'')] s
                  = Ok ([ExprStmt (RefExpr ''a'')] @ [ExprStmt (RefExpr ''b'')]) s2"
    using block_requires_rbrace [where ps = ps and s = s and ?s1.0 = s1
        and st = "ExprStmt (RefExpr ''b'')" and ?s2.0 = s2 and n = "Suc 0"
        and body = "[ExprStmt (RefExpr ''a'')]"] turn
    by blast
  have "BlockLoop ps (Suc (Suc (Suc 0))) [] b
                = Ok [ExprStmt (RefExpr ''a''), ExprStmt (RefExpr ''b'')] s2"
    by (subst BlockLoop.simps) (simp add: andThen_def first second del: BlockLoop.simps)
  then have loop: "BlockLoop ps 3 [] b
                = Ok [ExprStmt (RefExpr ''a''), ExprStmt (RefExpr ''b'')] s2"
    by (simp only: numeral_3_eq_3)
  have nb: "\<not> Is (Current s2) T_RBRACE"
    by (simp add: tk Is_def)
  from block_requires_rbrace [where ps = ps and b = b and m = 3 and e = s2
      and stmts = "[ExprStmt (RefExpr ''a''), ExprStmt (RefExpr ''b'')]"] lb loop nb
  have "ParseBlockStmt ps 3 b =
            Throw (ParserError (tk_loc (Current s2))
                     (''unexpected '' @ Token_Print (Current s2) @ '', expecting }''))"
    by blast
  then have "ParseBlockStmt ps 3 b
     = Throw (ParserError \<lparr>Name = ''f'', Line = 1, Column = 9\<rparr> ''unexpected IDENT(c), expecting }'')"
    by (simp add: tk Token_Print_def)
  moreover have "node_of (BlockLoop ps 3 [] b)
     = Some [ExprStmt (RefExpr ''a''), ExprStmt (RefExpr ''b'')]"
    by (simp only: loop node_of.simps)
  ultimately show ?thesis unfolding b_def ps_def by blast
qed

text \<open>
  C9.  The lexer produces the tokens INCR and DECR for \<open>++\<close> and \<open>--\<close>.  When the current
  token is one of them, \<open>ParseExpr\<close> reaches \<open>ParseTermExpr\<close>, which has no case for it, and
  throws the syntax error \<open>unexpected ++, expecting term\<close> (or \<open>--\<close>) at the location of the
  token.  The fuel is any number from 2 on.
\<close>

theorem incr_decr_expecting_term:
  "(lx_chr s = CHR ''+'' \<and> \<not> is_eof s \<and> is_rest s = CHR ''+'' # r
      \<longrightarrow> (\<exists>s'. Next s = Inr s' \<and> tk_kind (GetToken s') = T_INCR))
   \<and> (lx_chr s = CHR ''-'' \<and> \<not> is_eof s \<and> is_rest s = CHR ''-'' # r
      \<longrightarrow> (\<exists>s'. Next s = Inr s' \<and> tk_kind (GetToken s') = T_DECR))
   \<and> (tk_kind (Current p) = T_INCR \<or> tk_kind (Current p) = T_DECR
      \<longrightarrow> ParseExpr (Suc (Suc n)) p =
            Throw (ParserError (tk_loc (Current p))
                     (''unexpected '' @ print_Kind (tk_kind (Current p)) @ '', expecting term'')))"
proof -
  have lex: "Next s = NextToken s" if "lx_chr s = CHR ''+'' \<or> lx_chr s = CHR ''-''"
    unfolding Next_def using that by (subst SkipSpace.simps) (auto simp: isspace_def)
  have a: "\<exists>s'. Next s = Inr s' \<and> tk_kind (GetToken s') = T_INCR"
    if "lx_chr s = CHR ''+''" "\<not> is_eof s" "is_rest s = CHR ''+'' # r"
    using that by (simp add: lex NextToken_def PeekChar_def emit_def mkToken_def GetToken_def)
  have b: "\<exists>s'. Next s = Inr s' \<and> tk_kind (GetToken s') = T_DECR"
    if "lx_chr s = CHR ''-''" "\<not> is_eof s" "is_rest s = CHR ''-'' # r"
    using that by (simp add: lex NextToken_def PeekChar_def emit_def mkToken_def GetToken_def)
  have c: "ParseExpr (Suc (Suc n)) p =
            Throw (ParserError (tk_loc (Current p))
                     (''unexpected '' @ print_Kind (tk_kind (Current p)) @ '', expecting term''))"
    if "tk_kind (Current p) = T_INCR \<or> tk_kind (Current p) = T_DECR"
    using that
    by (auto simp: ParseEqualityExpr_def ParseComparisonExpr_def ParseAddSubExpr_def
        ParseMulDivExpr_def ParseCallExpr_def ParseTermExpr_def andThen_def Let_def Is_def
        term_error_def Parser_Error_def Token_Print_def)
  from a b c show ?thesis by blast
qed

theorem incr_decr_expecting_term_witness:
  "on_source (ParseExpr 2) ''f'' ''++x\<newline>''
     = Throw (ParserError \<lparr>Name = ''f'', Line = 1, Column = 2\<rparr> ''unexpected ++, expecting term'')
   \<and> on_source (ParseExpr 2) ''f'' ''--x\<newline>''
     = Throw (ParserError \<lparr>Name = ''f'', Line = 1, Column = 2\<rparr> ''unexpected --, expecting term'')
   \<and> first_token ''f'' ''++x\<newline>''
     = Inr \<lparr>tk_loc = \<lparr>Name = ''f'', Line = 1, Column = 2\<rparr>, tk_kind = T_INCR, tk_value = NoValue\<rparr>
   \<and> first_token ''f'' ''--x\<newline>''
     = Inr \<lparr>tk_loc = \<lparr>Name = ''f'', Line = 1, Column = 2\<rparr>, tk_kind = T_DECR, tk_value = NoValue\<rparr>"
proof -
  let ?i = "NextChar (Lexer_open ''f'' ''++x\<newline>'')"
  let ?d = "NextChar (Lexer_open ''f'' ''--x\<newline>'')"
  have i: "lx_chr ?i = CHR ''+'' \<and> \<not> is_eof ?i \<and> is_rest ?i = CHR ''+'' # ''x\<newline>''"
    and d: "lx_chr ?d = CHR ''-'' \<and> \<not> is_eof ?d \<and> is_rest ?d = CHR ''-'' # ''x\<newline>''"
    by (simp_all add: lexer_eval)
  have pi: "tk_kind (Current (projr (Lexer_new ''f'' ''++x\<newline>''))) = T_INCR
            \<or> tk_kind (Current (projr (Lexer_new ''f'' ''++x\<newline>''))) = T_DECR"
    and pd: "tk_kind (Current (projr (Lexer_new ''f'' ''--x\<newline>''))) = T_INCR
            \<or> tk_kind (Current (projr (Lexer_new ''f'' ''--x\<newline>''))) = T_DECR"
    by (simp_all add: lexer_eval Current_def GetToken_def)
  from i d pi pd show ?thesis
    using incr_decr_expecting_term [of ?i "''x\<newline>''" "projr (Lexer_new ''f'' ''++x\<newline>'')" 0]
      incr_decr_expecting_term [of ?d "''x\<newline>''" "projr (Lexer_new ''f'' ''--x\<newline>'')" 0]
    by (simp add: first_token_def lexer_eval parser_eval eval_nat_numeral)
qed

section \<open>The model on the examples of the specification\<close>

text \<open>
  The examples that the specification gives, run on the model: precedence,
  associativity, the dangling else and the unterminated string for the lexer and the
  parser (the fuel is any number from 4, from 5 for the statement, on); the call of an
  integer and the factorial of 5 for the virtual machine.
\<close>

lemma stod_exact: "decimal_value word < 2 ^ 53 \<Longrightarrow> stod word = Some (decimal_value word)"
  by (simp add: stod_def round_to_double_def)

lemmas number_eval = stod_exact decimal_value_def double_to_uint64_def

lemma precedence_example:
  "node_of (on_source (ParseExpr (Suc (Suc (Suc (Suc n))))) ''f'' ''2 + 3 * 4\<newline>'')
     = Some (BinaryExpr B_ADD (IntExpr 2) (BinaryExpr B_MUL (IntExpr 3) (IntExpr 4)))"
  by (simp add: lexer_eval parser_eval number_eval)

lemma associativity_example:
  "node_of (on_source (ParseExpr (Suc (Suc (Suc (Suc n))))) ''f'' ''10 - 3 - 2\<newline>'')
     = Some (BinaryExpr B_SUB (BinaryExpr B_SUB (IntExpr 10) (IntExpr 3)) (IntExpr 2))"
  by (simp add: lexer_eval parser_eval number_eval)

lemma dangling_else_example:
  "node_of (on_source (ParseStmt (Suc (Suc (Suc (Suc (Suc n)))))) ''f''
              ''if (a) if (b) 1 else 2\<newline>'')
     = Some (IfStmt (RefExpr ''a'')
               (IfStmt (RefExpr ''b'') (ExprStmt (IntExpr 1)) (make_shared (ExprStmt (IntExpr 2))))
               nullptr)"
  by (simp add: lexer_eval parser_eval number_eval)

lemma unterminated_string_example:
  "first_token ''f'' (CHR 0x22 # ''abc\<newline>'')
     = Inl (LexerError \<lparr>Name = ''f'', Line = 2, Column = 1\<rparr> ''string not terminated'')"
  by (simp add: first_token_def lexer_eval)

lemma call_integer_example:
  "Run call_integer_program (Suc (Suc n)) (machine [])
     = Some (Raised (RuntimeError ''cannot call integer'')
               \<lparr>vm_pc = 10, vm_stack = [], vm_cin = [], vm_cout = []\<rparr>)"
  by (simp add: call_integer_program_def cells_def machine_def step_def Read_Opcode_def
      Read_int64_def skip_def vmThen_def continue_def Push_def Pop_def)

lemma fact_example:
  "Run fact_program 60 (machine [])
     = Some (Done () \<lparr>vm_pc = 20, vm_stack = [V_INT 120], vm_cin = [], vm_cout = []\<rparr>)"
  by code_simp

end
